theory Spec2Isabelle
  imports Complex_Main "HOL-Library.AList"
begin

section \<open>Python values and failures\<close>

text \<open>
  The development embeds \<^verbatim>\<open>rank_clean.py\<close>: the battle report parser
  (\<^verbatim>\<open>parse_battle_report\<close>), the match processor (\<^verbatim>\<open>process_match_result\<close>) and the
  adjustment applier (\<^verbatim>\<open>apply_manual_adjustments\<close>). Every exception the Python can raise on
  the modelled paths is a value of \<open>error\<close>; a function that can raise returns
  \<open>error + 'a\<close> with \<open>Inl\<close> for the exception. Python \<^verbatim>\<open>int\<close> is \<open>int\<close>, Python
  \<^verbatim>\<open>float\<close> is idealised as \<open>real\<close>, \<^verbatim>\<open>str\<close> is \<open>string\<close>, and a value that is
  either a \<^verbatim>\<open>str\<close> or \<^verbatim>\<open>None\<close> is a \<open>string option\<close>.
\<close>

datatype error =
    AttributeError
  | TypeError
  | ValueError
  | AssertionError
  | KeyError
  | IndexError
  | ZeroDivisionError
  | StopIteration

type_synonym datetime = int

type_synonym pystr = "string option"

section \<open>The structured match document\<close>

text \<open>
  The report file is read with \<^verbatim>\<open>xml.etree.ElementTree\<close>. An element has a tag, a text
  (\<^verbatim>\<open>None\<close> when the element is empty) and its children in document order. The model
  starts from the parsed root element (line 98); a document that does not parse raises before
  that and never reaches the code modelled here.
\<close>

datatype xml = Element (tag: string) (elem_text: "string option") (children: "xml list")

text \<open>
  \<^verbatim>\<open>findall(path)\<close> for the paths the source uses: a path is a list of steps, where
  \<^verbatim>\<open>.\<close> keeps the current elements, \<^verbatim>\<open>*\<close> selects every child and a tag selects the
  children with that tag. \<^verbatim>\<open>find(path)\<close> is the first element of \<^verbatim>\<open>findall(path)\<close> or
  \<^verbatim>\<open>None\<close>.
\<close>

definition select_step :: "string \<Rightarrow> xml list \<Rightarrow> xml list" where
  "select_step s es =
     (if s = ''.'' then es
      else if s = ''*'' then concat (map children es)
      else concat (map (\<lambda>e. filter (\<lambda>c. tag c = s) (children e)) es))"

definition findall :: "string list \<Rightarrow> xml \<Rightarrow> xml list" where
  "findall path e = foldl (\<lambda>es s. select_step s es) [e] path"

definition find_xml :: "string list \<Rightarrow> xml \<Rightarrow> xml option" where
  "find_xml path e = (case findall path e of [] \<Rightarrow> None | x # _ \<Rightarrow> Some x)"

subsection \<open>\<^verbatim>\<open>int(text)\<close> and \<^verbatim>\<open>html.escape(text)\<close>\<close>

text \<open>
  \<^verbatim>\<open>int(s)\<close> on an ASCII string, base 10: surrounding whitespace (tab, line feed, vertical
  tab, form feed, carriage return, space) is stripped, then an optional sign, then decimal
  digits that may be separated by single underscores. Anything else raises
  \<^verbatim>\<open>ValueError\<close> (\<open>None\<close> here). Left out: the further whitespace characters Python
  strips from a string that is not ASCII, and the limit on the number of digits.
\<close>

definition is_space :: "char \<Rightarrow> bool" where
  "is_space c = (let n = (of_char c :: nat) in (9 \<le> n \<and> n \<le> 13) \<or> n = 32)"

definition is_digit :: "char \<Rightarrow> bool" where
  "is_digit c = (let n = (of_char c :: nat) in 48 \<le> n \<and> n \<le> 57)"

definition digit_val :: "char \<Rightarrow> nat" where
  "digit_val c = (of_char c :: nat) - 48"

definition strip :: "string \<Rightarrow> string" where
  "strip s = rev (dropWhile is_space (rev (dropWhile is_space s)))"

fun digits_rest :: "nat \<Rightarrow> string \<Rightarrow> nat option" where
  "digits_rest acc [] = Some acc"
| "digits_rest acc [c] = (if is_digit c then Some (10 * acc + digit_val c) else None)"
| "digits_rest acc (c # d # cs) =
     (if c = CHR ''_'' then
        (if is_digit d then digits_rest (10 * acc + digit_val d) cs else None)
      else if is_digit c then digits_rest (10 * acc + digit_val c) (d # cs)
      else None)"

definition digits :: "string \<Rightarrow> nat option" where
  "digits s = (case s of [] \<Rightarrow> None
               | c # cs \<Rightarrow> if is_digit c then digits_rest (digit_val c) cs else None)"

definition py_int :: "string \<Rightarrow> int option" where
  "py_int s =
     (case strip s of
        [] \<Rightarrow> None
      | c # cs \<Rightarrow>
          if c = CHR ''-'' then map_option (\<lambda>n. - int n) (digits cs)
          else if c = CHR ''+'' then map_option int (digits cs)
          else map_option int (digits (c # cs)))"

text \<open>\<^verbatim>\<open>html.escape(s)\<close> with quotes: five single-character replacements, \<^verbatim>\<open>&\<close> first.\<close>

definition replace_char :: "char \<Rightarrow> string \<Rightarrow> string \<Rightarrow> string" where
  "replace_char c r s = concat (map (\<lambda>x. if x = c then r else [x]) s)"

definition html_escape :: "string \<Rightarrow> string" where
  "html_escape s =
     replace_char (CHR 0x27) ''&#x27;''
       (replace_char (CHR 0x22) ''&quot;''
          (replace_char CHR ''>'' ''&gt;''
             (replace_char CHR ''<'' ''&lt;''
                (replace_char CHR ''&'' ''&amp;'' s))))"

section \<open>Data model\<close>

text \<open>
  \<^verbatim>\<open>PlayerInfo\<close>, a roster entry. Its \<^verbatim>\<open>steam_name\<close> key is the field \<open>info_name\<close>
  here, since \<^verbatim>\<open>PlayerData\<close> has a key of the same name.
\<close>

record PlayerInfo =
  player_id :: string
  info_name :: string
  faction :: string

text \<open>
  \<^verbatim>\<open>MatchData\<close>: \<open>teams\<close> is a Python dict, kept as an association list in insertion order
  (\<open>AList.update\<close> is the dict assignment). A team id and the winner are texts of elements,
  so either may be \<^verbatim>\<open>None\<close>.
\<close>

record MatchData =
  valid :: bool
  time :: datetime
  teams :: "(pystr \<times> PlayerInfo list) list"
  winning_team :: pystr
  avg_dlo :: real
  match_quality :: real

section \<open>Report Parser: \<^verbatim>\<open>parse_battle_report\<close>\<close>

definition ANS_HULLKEYS :: "string list" where
  "ANS_HULLKEYS =
     [''Stock/Sprinter Corvette'',
      ''Stock/Raines Frigate'',
      ''Stock/Keystone Destroyer'',
      ''Stock/Vauxhall Light Cruiser'',
      ''Stock/Axford Heavy Cruiser'',
      ''Stock/Solomon Battleship'',
      ''Stock/Levy Escort Carrier'']"

definition OSP_HULLKEYS :: "string list" where
  "OSP_HULLKEYS =
     [''Stock/Shuttle'',
      ''Stock/Tugboat'',
      ''Stock/Journeyman'',
      ''Stock/Bulk Feeder'',
      ''Stock/Ore Carrier'',
      ''Stock/Ocello Cruiser'',
      ''Stock/Bulk Hauler'',
      ''Stock/Container Hauler'',
      ''Stock/Container Hauler Refit'']"

text \<open>\<^verbatim>\<open>int(root.find(t).text)\<close> and \<^verbatim>\<open>bool(root.find(t).text)\<close>, with their failures.\<close>

definition element_int :: "xml option \<Rightarrow> error + int" where
  "element_int el =
     (case el of
        None \<Rightarrow> Inl AttributeError
      | Some e \<Rightarrow>
          (case elem_text e of
             None \<Rightarrow> Inl TypeError
           | Some s \<Rightarrow> (case py_int s of None \<Rightarrow> Inl ValueError | Some n \<Rightarrow> Inr n)))"

definition element_bool :: "xml option \<Rightarrow> error + bool" where
  "element_bool el =
     (case el of
        None \<Rightarrow> Inl AttributeError
      | Some e \<Rightarrow> Inr (case elem_text e of None \<Rightarrow> False | Some s \<Rightarrow> s \<noteq> []))"

text \<open>
  Line 101, the condition under which the record is returned with \<^verbatim>\<open>valid=False\<close>. The
  disjunction is evaluated left to right and stops at the first true operand.
\<close>

definition basic_params_invalid :: "xml \<Rightarrow> error + bool" where
  "basic_params_invalid root_element =
     (case element_int (find_xml [''GameStartTimestamp''] root_element) of
        Inl e \<Rightarrow> Inl e
      | Inr start \<Rightarrow>
          if start = 0 then Inr True
          else
            (case element_int (find_xml [''GameDuration''] root_element) of
               Inl e \<Rightarrow> Inl e
             | Inr duration \<Rightarrow>
                 if duration > 7000 then Inr True
                 else if duration < 200 then Inr True
                 else
                   (case element_bool (find_xml [''GameFinished''] root_element) of
                      Inl e \<Rightarrow> Inl e
                    | Inr finished \<Rightarrow> Inr (\<not> finished))))"

definition invalid_match :: "datetime \<Rightarrow> MatchData" where
  "invalid_match game_time =
     \<lparr>valid = False, time = game_time, teams = [], winning_team = Some ''None'',
      avg_dlo = 0, match_quality = 0\<rparr>"

text \<open>
  Lines 128-130: \<^verbatim>\<open>all(k.text in KEYS for k in player_hullkeys) and len(player_hullkeys)\<close>,
  read as a truth value.
\<close>

definition player_hullkeys :: "xml \<Rightarrow> xml list" where
  "player_hullkeys player_element =
     findall [''.'', ''Ships'', ''ShipBattleReport'', ''HullKey''] player_element"

definition all_in :: "string list \<Rightarrow> xml list \<Rightarrow> bool" where
  "all_in keys ks =
     (list_all (\<lambda>k. case elem_text k of None \<Rightarrow> False | Some t \<Rightarrow> t \<in> set keys) ks
      \<and> length ks \<noteq> 0)"

definition is_player_ANS :: "xml \<Rightarrow> bool" where
  "is_player_ANS player_element = all_in ANS_HULLKEYS (player_hullkeys player_element)"

definition is_player_OSP :: "xml \<Rightarrow> bool" where
  "is_player_OSP player_element = all_in OSP_HULLKEYS (player_hullkeys player_element)"

text \<open>Lines 132-135: the two guarded assignments to \<^verbatim>\<open>team_faction\<close>, in order.\<close>

definition update_team_faction :: "string \<Rightarrow> xml \<Rightarrow> string" where
  "update_team_faction team_faction player_element =
     (let tf1 = (if is_player_ANS player_element \<and> team_faction \<noteq> ''OSP''
                 then ''ANS'' else team_faction)
      in if is_player_OSP player_element \<and> tf1 \<noteq> ''ANS'' then ''OSP'' else tf1)"

text \<open>
  Lines 120-124: the text of an optional element, escaped; a missing element gives the empty
  string, an element without text makes \<^verbatim>\<open>html.escape(None)\<close> raise.
\<close>

definition escaped_text :: "xml option \<Rightarrow> error + string" where
  "escaped_text el =
     (case el of
        None \<Rightarrow> Inr ''''
      | Some e \<Rightarrow>
          (case elem_text e of None \<Rightarrow> Inl AttributeError | Some s \<Rightarrow> Inr (html_escape s)))"

text \<open>
  The loop over the players of one team (lines 119-140). The state is the team faction so far
  and the list of \<^verbatim>\<open>(player_id, steam_name)\<close> entries appended so far.
\<close>

fun parse_players ::
  "xml list \<Rightarrow> string \<Rightarrow> (string \<times> string) list \<Rightarrow> error + string \<times> (string \<times> string) list"
where
  "parse_players [] team_faction players = Inr (team_faction, players)"
| "parse_players (player_element # rest) team_faction players =
     (case escaped_text (find_xml [''PlayerName''] player_element) of
        Inl e \<Rightarrow> Inl e
      | Inr player_name \<Rightarrow>
          (case escaped_text (find_xml [''AccountId'', ''Value''] player_element) of
             Inl e \<Rightarrow> Inl e
           | Inr pid \<Rightarrow>
               parse_players rest (update_team_faction team_faction player_element)
                 (players @ [(pid, player_name)])))"

text \<open>
  One team (lines 113-150): its id, its players with the team faction assigned to each, and
  the assertion of lines 147-148.
\<close>

definition parse_team :: "xml \<Rightarrow> error + pystr \<times> PlayerInfo list" where
  "parse_team team_element =
     (let team_id = (case find_xml [''TeamID''] team_element of
                       None \<Rightarrow> Some '''' | Some e \<Rightarrow> elem_text e)
      in case parse_players (findall [''.'', ''Players'', ''*''] team_element) '''' [] of
           Inl e \<Rightarrow> Inl e
         | Inr (team_faction, entries) \<Rightarrow>
             (let players = map (\<lambda>(pid, nm).
                               \<lparr>player_id = pid, info_name = nm, faction = team_faction\<rparr>)
                             entries
              in if list_all (\<lambda>p. faction p \<in> set [''ANS'', ''OSP'']) players
                 then Inr (team_id, players)
                 else Inl AssertionError))"

fun parse_teams ::
  "xml list \<Rightarrow> (pystr \<times> PlayerInfo list) list \<Rightarrow> error + (pystr \<times> PlayerInfo list) list"
where
  "parse_teams [] teams_data = Inr teams_data"
| "parse_teams (team_element # rest) teams_data =
     (case parse_team team_element of
        Inl e \<Rightarrow> Inl e
      | Inr (team_id, players) \<Rightarrow> parse_teams rest (AList.update team_id players teams_data))"

text \<open>
  \<^verbatim>\<open>parse_battle_report\<close> from the root element on. \<open>game_time\<close> is the timestamp that
  line 89 computes from the file name before the document is read.
\<close>

definition parse_battle_report :: "datetime \<Rightarrow> xml \<Rightarrow> error + MatchData" where
  "parse_battle_report game_time root_element =
     (case basic_params_invalid root_element of
        Inl e \<Rightarrow> Inl e
      | Inr True \<Rightarrow> Inr (invalid_match game_time)
      | Inr False \<Rightarrow>
          (case parse_teams (findall [''.'', ''Teams'', ''*''] root_element) [] of
             Inl e \<Rightarrow> Inl e
           | Inr teams_data \<Rightarrow>
               Inr \<lparr>valid = True, time = game_time, teams = teams_data,
                    winning_team = (case find_xml [''WinningTeam''] root_element of
                                      None \<Rightarrow> Some '''' | Some e \<Rightarrow> elem_text e),
                    avg_dlo = 0, match_quality = 0\<rparr>))"

section \<open>Rating Service and Player Database\<close>

text \<open>
  The rating library is not part of the repository. A rating belief is a record of its name,
  mean and uncertainty; the model object is a record of what the code uses of it: the
  defaults of its \<^verbatim>\<open>rating\<close> factory, \<^verbatim>\<open>rate\<close>, \<^verbatim>\<open>predict_draw\<close>, and the
  \<^verbatim>\<open>ordinal()\<close> score of a rating. All theorems hold for every such model.
\<close>

record PlackettLuceRating =
  name :: string
  mu :: real
  sigma :: real

record PlackettLuce =
  model_mu :: real
  model_sigma :: real
  rate :: "PlackettLuceRating list list \<Rightarrow> PlackettLuceRating list list"
  predict_draw :: "PlackettLuceRating list list \<Rightarrow> real"
  ordinal :: "PlackettLuceRating \<Rightarrow> real"

text \<open>\<^verbatim>\<open>model.rating(name=..., mu=..., sigma=...)\<close>: an omitted argument takes the default.\<close>

definition rating ::
  "PlackettLuce \<Rightarrow> string \<Rightarrow> real option \<Rightarrow> real option \<Rightarrow> PlackettLuceRating"
where
  "rating model nm m s =
     \<lparr>name = nm,
      mu = (case m of None \<Rightarrow> model_mu model | Some x \<Rightarrow> x),
      sigma = (case s of None \<Rightarrow> model_sigma model | Some x \<Rightarrow> x)\<rparr>"

record TeammateStats =
  games :: int
  tm_wins :: int

record PlayerData =
  steam_name :: string
  rating_data :: PlackettLuceRating
  player :: bool
  games_played :: int
  wins :: int
  ans_games :: int
  ans_wins :: int
  osp_games :: int
  osp_wins :: int
  history :: "(datetime \<times> real) list"
  teammates :: "string \<rightharpoonup> TeammateStats"

type_synonym database = "string \<rightharpoonup> PlayerData"

section \<open>Match Processor: \<^verbatim>\<open>process_match_result\<close>\<close>

text \<open>Lines 188-200, the record of a player seen for the first time.\<close>

definition new_player :: "PlackettLuce \<Rightarrow> string \<Rightarrow> string \<Rightarrow> PlayerData" where
  "new_player model nm pid =
     \<lparr>steam_name = nm, rating_data = rating model pid None None, player = True,
      games_played = 0, wins = 0, ans_games = 0, ans_wins = 0, osp_games = 0, osp_wins = 0,
      history = [], teammates = Map.empty\<rparr>"

text \<open>Lines 219-228, the loop over the roster that counts the player's teammates.\<close>

fun update_teammates ::
  "string \<Rightarrow> bool \<Rightarrow> PlayerInfo list \<Rightarrow> (string \<rightharpoonup> TeammateStats) \<Rightarrow> (string \<rightharpoonup> TeammateStats)"
where
  "update_teammates pid won [] db = db"
| "update_teammates pid won (teammate # rest) db =
     (let teammate_id = player_id teammate
      in if pid = teammate_id then update_teammates pid won rest db
         else
           (let entry = (case db teammate_id of
                           None \<Rightarrow> \<lparr>games = 0, tm_wins = 0\<rparr> | Some st \<Rightarrow> st);
                entry1 = entry\<lparr>games := games entry + 1\<rparr>;
                entry2 = (if won then entry1\<lparr>tm_wins := tm_wins entry1 + 1\<rparr> else entry1)
            in update_teammates pid won rest (db(teammate_id \<mapsto> entry2))))"

text \<open>
  Lines 183-228, the body of the loop over one roster: get or create the player's record,
  take its rating belief for the team list, count the game, and fail the assertion of line
  209 on a faction that is neither \<^verbatim>\<open>ANS\<close> nor \<^verbatim>\<open>OSP\<close>.
\<close>

definition process_player ::
  "PlackettLuce \<Rightarrow> pystr \<Rightarrow> pystr \<Rightarrow> PlayerInfo list \<Rightarrow> PlayerInfo \<Rightarrow> database
     \<Rightarrow> error + database \<times> PlackettLuceRating"
where
  "process_player model team_id winner players p database =
     (let pid = player_id p;
          d0 = (case database pid of
                  None \<Rightarrow> new_player model (info_name p) pid | Some d \<Rightarrow> d);
          won = (team_id = winner);
          d1 = d0\<lparr>games_played := games_played d0 + 1\<rparr>;
          d2 = (if won then d1\<lparr>wins := wins d1 + 1\<rparr> else d1)
      in if faction p \<notin> set [''ANS'', ''OSP''] then Inl AssertionError
         else
           (let d3 = (if faction p = ''ANS''
                      then (let a = d2\<lparr>ans_games := ans_games d2 + 1\<rparr>
                            in if won then a\<lparr>ans_wins := ans_wins a + 1\<rparr> else a)
                      else d2);
                d4 = (if faction p = ''OSP''
                      then (let b = d3\<lparr>osp_games := osp_games d3 + 1\<rparr>
                            in if won then b\<lparr>osp_wins := osp_wins b + 1\<rparr> else b)
                      else d3);
                d5 = d4\<lparr>teammates := update_teammates pid won players (teammates d4)\<rparr>
            in Inr (database(pid \<mapsto> d5), rating_data d0)))"

text \<open>
  Lines 182-229, the loop over the players of one team; \<open>players\<close> is the whole roster,
  \<open>todo\<close> the entries still to visit, \<open>team_players\<close> the rating beliefs collected so far.
\<close>

fun team_loop ::
  "PlackettLuce \<Rightarrow> pystr \<Rightarrow> pystr \<Rightarrow> PlayerInfo list \<Rightarrow> PlayerInfo list \<Rightarrow> database
     \<Rightarrow> PlackettLuceRating list \<Rightarrow> error + database \<times> PlackettLuceRating list"
where
  "team_loop model team_id winner players [] database team_players =
     Inr (database, team_players)"
| "team_loop model team_id winner players (p # todo) database team_players =
     (case process_player model team_id winner players p database of
        Inl e \<Rightarrow> Inl e
      | Inr (database1, r) \<Rightarrow>
          team_loop model team_id winner players todo database1 (team_players @ [r]))"

text \<open>Lines 179-229, the loop over the teams, filling the dict \<^verbatim>\<open>updated_teams\<close>.\<close>

fun teams_loop ::
  "PlackettLuce \<Rightarrow> pystr \<Rightarrow> (pystr \<times> PlayerInfo list) list \<Rightarrow> database
     \<Rightarrow> (pystr \<times> PlackettLuceRating list) list
     \<Rightarrow> error + database \<times> (pystr \<times> PlackettLuceRating list) list"
where
  "teams_loop model winner [] database updated_teams = Inr (database, updated_teams)"
| "teams_loop model winner ((team_id, players) # rest) database updated_teams =
     (case team_loop model team_id winner players players database [] of
        Inl e \<Rightarrow> Inl e
      | Inr (database1, team_players) \<Rightarrow>
          teams_loop model winner rest database1
            (AList.update team_id team_players updated_teams))"

text \<open>
  Lines 234-239: a history entry for every collected rating belief, found in the database by
  the belief's name.
\<close>

fun append_history ::
  "PlackettLuce \<Rightarrow> datetime \<Rightarrow> PlackettLuceRating list \<Rightarrow> database \<Rightarrow> error + database"
where
  "append_history model t [] database = Inr database"
| "append_history model t (player_rating # rest) database =
     (case database (name player_rating) of
        None \<Rightarrow> Inl KeyError
      | Some d \<Rightarrow>
          append_history model t rest
            (database(name player_rating \<mapsto>
               d\<lparr>history := history d @ [(t, ordinal model (rating_data d))]\<rparr>)))"

text \<open>
  Lines 241-264. \<^verbatim>\<open>sum(xs) / n\<close> raises on \<open>n = 0\<close>; the padding appends
  \<^verbatim>\<open>largest_team - len(team)\<close> synthetic beliefs named \<^verbatim>\<open>TEST_PLAYER\<close>.
\<close>

definition average :: "real list \<Rightarrow> nat \<Rightarrow> error + real" where
  "average xs n = (if n = 0 then Inl ZeroDivisionError else Inr (sum_list xs / real n))"

definition pad_team ::
  "PlackettLuce \<Rightarrow> nat \<Rightarrow> PlackettLuceRating list \<Rightarrow> error + PlackettLuceRating list"
where
  "pad_team model largest_team team =
     (if length team < largest_team then
        (case average (map mu team) (length team) of
           Inl e \<Rightarrow> Inl e
         | Inr average_mu \<Rightarrow>
             (case average (map sigma team) (length team) of
                Inl e \<Rightarrow> Inl e
              | Inr average_sigma \<Rightarrow>
                  Inr (team @ replicate (largest_team - length team)
                                (rating model ''TEST_PLAYER''
                                   (Some average_mu) (Some average_sigma)))))
      else Inr team)"

definition balance_teams ::
  "PlackettLuce \<Rightarrow> PlackettLuceRating list \<Rightarrow> PlackettLuceRating list
     \<Rightarrow> error + PlackettLuceRating list \<times> PlackettLuceRating list"
where
  "balance_teams model winner_team other_team =
     (let largest_team = max (length winner_team) (length other_team)
      in case pad_team model largest_team winner_team of
           Inl e \<Rightarrow> Inl e
         | Inr w \<Rightarrow>
             (case pad_team model largest_team other_team of
                Inl e \<Rightarrow> Inl e
              | Inr ot \<Rightarrow> Inr (w, ot)))"

text \<open>Lines 267-270, the two derived metrics of the match.\<close>

definition match_metrics ::
  "PlackettLuce \<Rightarrow> PlackettLuceRating list \<Rightarrow> PlackettLuceRating list \<Rightarrow> error + real \<times> real"
where
  "match_metrics model winner_team other_team =
     (case average (map mu (winner_team @ other_team))
             (length winner_team + length other_team) of
        Inl e \<Rightarrow> Inl e
      | Inr average_mu \<Rightarrow>
          (case average (map sigma (winner_team @ other_team))
                  (length winner_team + length other_team) of
             Inl e \<Rightarrow> Inl e
           | Inr average_sigma \<Rightarrow>
               Inr (average_mu - 3 * average_sigma,
                    predict_draw model [winner_team, other_team])))"

text \<open>
  Lines 278-287: the rated beliefs go back into the database, except the synthetic ones;
  \<^verbatim>\<open>history[-1] = ...\<close> raises on an empty history.
\<close>

fun write_back_team ::
  "PlackettLuce \<Rightarrow> datetime \<Rightarrow> PlackettLuceRating list \<Rightarrow> database \<Rightarrow> error + database"
where
  "write_back_team model t [] database = Inr database"
| "write_back_team model t (r # rest) database =
     (if name r = ''TEST_PLAYER'' then write_back_team model t rest database
      else
        (case database (name r) of
           None \<Rightarrow> Inl KeyError
         | Some d \<Rightarrow>
             if history d = [] then Inl IndexError
             else
               write_back_team model t rest
                 (database(name r \<mapsto>
                    d\<lparr>rating_data := r,
                      history := (history d)[length (history d) - 1 := (t, ordinal model r)]\<rparr>))))"

fun write_back ::
  "PlackettLuce \<Rightarrow> datetime \<Rightarrow> PlackettLuceRating list list \<Rightarrow> database \<Rightarrow> error + database"
where
  "write_back model t [] database = Inr database"
| "write_back model t (team # rest) database =
     (case write_back_team model t team database of
        Inl e \<Rightarrow> Inl e
      | Inr database1 \<Rightarrow> write_back model t rest database1)"

text \<open>
  \<^verbatim>\<open>process_match_result\<close>. The Python mutates \<^verbatim>\<open>database\<close>, \<^verbatim>\<open>match_history\<close> and
  \<^verbatim>\<open>match_data\<close> in place and returns nothing; the model returns the three after the call.
\<close>

definition process_match_result ::
  "PlackettLuce \<Rightarrow> MatchData \<Rightarrow> MatchData list \<Rightarrow> database
     \<Rightarrow> error + database \<times> MatchData list \<times> MatchData"
where
  "process_match_result model match_data match_history database =
     (let winner = winning_team match_data
      in if \<not> valid match_data \<or> winner \<notin> set (map fst (teams match_data))
         then Inr (database, match_history, match_data)
         else
           (case teams_loop model winner (teams match_data) database [] of
              Inl e \<Rightarrow> Inl e
            | Inr (database1, updated_teams) \<Rightarrow>
                (case map_of updated_teams winner of
                   None \<Rightarrow> Inl KeyError
                 | Some winner_team \<Rightarrow>
                     (case AList.delete winner updated_teams of
                        [] \<Rightarrow> Inl StopIteration
                      | (other_id, other_team) # _ \<Rightarrow>
                          (case append_history model (time match_data)
                                  (winner_team @ other_team) database1 of
                             Inl e \<Rightarrow> Inl e
                           | Inr database2 \<Rightarrow>
                               (case balance_teams model winner_team other_team of
                                  Inl e \<Rightarrow> Inl e
                                | Inr (w, ot) \<Rightarrow>
                                    (case match_metrics model w ot of
                                       Inl e \<Rightarrow> Inl e
                                     | Inr (average_dlo, quality) \<Rightarrow>
                                         (let match_data1 =
                                                match_data\<lparr>avg_dlo := average_dlo,
                                                           match_quality := quality\<rparr>
                                          in case write_back model (time match_data)
                                                    (rate model [w, ot]) database2 of
                                               Inl e \<Rightarrow> Inl e
                                             | Inr database3 \<Rightarrow>
                                                 Inr (database3,
                                                      match_history @ [match_data1],
                                                      match_data1)))))))))"

text \<open>
  Lines 1153-1156 of \<^verbatim>\<open>main\<close>, from parsed records on: the matches are folded through
  \<^verbatim>\<open>process_match_result\<close> in order; an exception ends the run.
\<close>

fun process_matches ::
  "PlackettLuce \<Rightarrow> MatchData list \<Rightarrow> MatchData list \<Rightarrow> database
     \<Rightarrow> error + database \<times> MatchData list"
where
  "process_matches model [] match_history database = Inr (database, match_history)"
| "process_matches model (match_data # rest) match_history database =
     (case process_match_result model match_data match_history database of
        Inl e \<Rightarrow> Inl e
      | Inr (database1, match_history1, _) \<Rightarrow>
          process_matches model rest match_history1 database1)"

section \<open>Adjustment Applier: \<^verbatim>\<open>apply_manual_adjustments\<close>\<close>

text \<open>
  A directive of the adjustment file, with the four keys the function reads
  (\<^verbatim>\<open>steam_name\<close> is the field \<open>adj_name\<close>).
\<close>

record Adjustment =
  steam_id :: string
  adj_name :: string
  mu_adjustment :: real
  reason_for_adjustment :: string

fun apply_manual_adjustments ::
  "PlackettLuce \<Rightarrow> database \<Rightarrow> Adjustment list \<Rightarrow> database"
where
  "apply_manual_adjustments model database [] = database"
| "apply_manual_adjustments model database (adj # rest) =
     (case database (steam_id adj) of
        Some d \<Rightarrow>
          (let original = rating_data d;
               adjusted_rating = rating model (name original)
                                   (Some (mu original + mu_adjustment adj))
                                   (Some (sigma original))
           in apply_manual_adjustments model
                (database(steam_id adj \<mapsto> d\<lparr>rating_data := adjusted_rating\<rparr>)) rest)
      | None \<Rightarrow> apply_manual_adjustments model database rest)"

section \<open>Notions used in the statements about the parser\<close>

text \<open>
  The player elements of a team element, as line 119 selects them, and the condition under
  which neither \<^verbatim>\<open>html.escape\<close> call of lines 123-124 raises for a player element.
\<close>

definition texts_present :: "xml \<Rightarrow> bool" where
  "texts_present player_element =
     (escaped_text (find_xml [''PlayerName''] player_element) \<noteq> Inl AttributeError
      \<and> escaped_text (find_xml [''AccountId'', ''Value''] player_element) \<noteq> Inl AttributeError)"

definition player_elements :: "xml \<Rightarrow> xml list" where
  "player_elements team_element = findall [''.'', ''Players'', ''*''] team_element"

section \<open>Notions used in the statements about the match processor\<close>

text \<open>
  What the database holds for a player id: the rating belief the first loop of
  \<^verbatim>\<open>process_match_result\<close> collects for it (the stored belief, or the default belief of a
  player not yet in the database), the games counter and the history, with \<open>0\<close> and the
  empty history for an id that is not a key.
\<close>

definition current_rating :: "PlackettLuce \<Rightarrow> database \<Rightarrow> string \<Rightarrow> PlackettLuceRating" where
  "current_rating model database pid =
     (case database pid of None \<Rightarrow> rating model pid None None | Some d \<Rightarrow> rating_data d)"

definition games_of :: "database \<Rightarrow> string \<Rightarrow> int" where
  "games_of database pid = (case database pid of None \<Rightarrow> 0 | Some d \<Rightarrow> games_played d)"

definition history_of :: "database \<Rightarrow> string \<Rightarrow> (datetime \<times> real) list" where
  "history_of database pid = (case database pid of None \<Rightarrow> [] | Some d \<Rightarrow> history d)"

definition beliefs ::
  "PlackettLuce \<Rightarrow> database \<Rightarrow> PlayerInfo list \<Rightarrow> PlackettLuceRating list"
where
  "beliefs model database ps = map (\<lambda>p. current_rating model database (player_id p)) ps"

text \<open>
  The database keeps every rating belief under the name it carries: new players get a belief
  named by their id (line 190), and the write-back stores a belief under its own name (line
  283).
\<close>

definition names_ok :: "database \<Rightarrow> bool" where
  "names_ok database = (\<forall>k d. database k = Some d \<longrightarrow> name (rating_data d) = k)"

text \<open>
  A valid two-team match: the record is valid, its teams dict has two keys, and the winner is
  one of them. Its rosters are the winner's and the other one, as lines 231-232 take them; its
  participants are the roster entries of all teams, by player id.
\<close>

definition two_team_match :: "MatchData \<Rightarrow> bool" where
  "two_team_match m =
     (valid m \<and> length (teams m) = 2 \<and> distinct (map fst (teams m))
      \<and> winning_team m \<in> set (map fst (teams m)))"

definition winner_roster :: "MatchData \<Rightarrow> PlayerInfo list" where
  "winner_roster m = (case map_of (teams m) (winning_team m) of None \<Rightarrow> [] | Some ps \<Rightarrow> ps)"

definition other_roster :: "MatchData \<Rightarrow> PlayerInfo list" where
  "other_roster m =
     (case AList.delete (winning_team m) (teams m) of [] \<Rightarrow> [] | (k, ps) # _ \<Rightarrow> ps)"

definition participants :: "MatchData \<Rightarrow> string list" where
  "participants m = map player_id (concat (map snd (teams m)))"

text \<open>
  The part of the Rating Service contract the write-back relies on: \<^verbatim>\<open>rate\<close> returns the
  teams in the same shape and order, each belief under the name it came with.
\<close>

definition rate_keeps_names :: "PlackettLuce \<Rightarrow> bool" where
  "rate_keeps_names model = (\<forall>ts. map (map name) (rate model ts) = map (map name) ts)"

text \<open>
  How often a player id occurs as a roster entry in a sequence of matches, and in how many
  matches of the sequence it occurs at all.
\<close>

definition appearances :: "MatchData list \<Rightarrow> string \<Rightarrow> nat" where
  "appearances ms k = sum_list (map (\<lambda>m. count_list (participants m) k) ms)"

definition matches_with :: "MatchData list \<Rightarrow> string \<Rightarrow> nat" where
  "matches_with ms k = length (filter (\<lambda>m. k \<in> set (participants m)) ms)"

text \<open>
  A match on which \<^verbatim>\<open>process_match_result\<close> raises nothing: a valid two-team match whose
  rosters are both non-empty and whose entries all carry the faction \<^verbatim>\<open>ANS\<close> or
  \<^verbatim>\<open>OSP\<close>.
\<close>

definition well_formed_match :: "MatchData \<Rightarrow> bool" where
  "well_formed_match m =
     (two_team_match m \<and> winner_roster m \<noteq> [] \<and> other_roster m \<noteq> []
      \<and> list_all (\<lambda>p. faction p = ''ANS'' \<or> faction p = ''OSP'') (concat (map snd (teams m))))"

text \<open>What a run left behind: a player's record and the match record, if the run returned.\<close>

definition result_player :: "error + database \<times> 'a \<Rightarrow> string \<Rightarrow> PlayerData option" where
  "result_player res k = (case res of Inl e \<Rightarrow> None | Inr (db, _) \<Rightarrow> db k)"

definition result_match ::
  "error + database \<times> MatchData list \<times> MatchData \<Rightarrow> MatchData option"
where
  "result_match res = (case res of Inl e \<Rightarrow> None | Inr (_, _, m) \<Rightarrow> Some m)"

section \<open>Example inputs\<close>

text \<open>
  A report document in the shape the parser walks: the root carries the finished flag, the
  winner, the start timestamp, the duration and the teams; a team carries its id and its
  players; a player carries a name, an account id and the hull keys of the ships fielded.
\<close>

definition example_player :: "string \<Rightarrow> string \<Rightarrow> string list \<Rightarrow> xml" where
  "example_player nm pid hulls =
     Element ''AARPlayerReport'' None
       [Element ''PlayerName'' (Some nm) [],
        Element ''AccountId'' None [Element ''Value'' (Some pid) []],
        Element ''Ships'' None
          (map (\<lambda>h. Element ''ShipBattleReport'' None [Element ''HullKey'' (Some h) []])
             hulls)]"

definition example_team :: "string \<Rightarrow> xml list \<Rightarrow> xml" where
  "example_team tid ps =
     Element ''TeamReportOfShipBattleReport'' None
       [Element ''TeamID'' (Some tid) [], Element ''Players'' None ps]"

definition example_report ::
  "string \<Rightarrow> string \<Rightarrow> string \<Rightarrow> string \<Rightarrow> xml list \<Rightarrow> xml"
where
  "example_report start duration finished winner ts =
     Element ''FullAfterActionReport'' None
       [Element ''GameFinished'' (Some finished) [],
        Element ''WinningTeam'' (Some winner) [],
        Element ''GameStartTimestamp'' (Some start) [],
        Element ''GameDuration'' (Some duration) [],
        Element ''Teams'' None ts]"

definition alice_element :: xml where
  "alice_element = example_player ''alice'' ''1001'' [''Stock/Sprinter Corvette'']"

definition bob_element :: xml where
  "bob_element = example_player ''bob'' ''1002'' [''Stock/Shuttle'', ''Stock/Tugboat'']"

definition carol_element :: xml where
  "carol_element = example_player ''carol'' ''1003'' []"

definition example_teams :: "xml list" where
  "example_teams =
     [example_team ''TeamA'' [alice_element], example_team ''TeamB'' [bob_element]]"

definition alice :: PlayerInfo where
  "alice = \<lparr>player_id = ''1001'', info_name = ''alice'', faction = ''ANS''\<rparr>"

definition bob :: PlayerInfo where
  "bob = \<lparr>player_id = ''1002'', info_name = ''bob'', faction = ''OSP''\<rparr>"

definition carol :: PlayerInfo where
  "carol = \<lparr>player_id = ''1003'', info_name = ''carol'', faction = ''ANS''\<rparr>"

definition example_match :: MatchData where
  "example_match =
     \<lparr>valid = True, time = 5,
      teams = [(Some ''TeamA'', [alice]), (Some ''TeamB'', [bob])],
      winning_team = Some ''TeamA'', avg_dlo = 0, match_quality = 0\<rparr>"

text \<open>
  A rating service for the examples: beliefs start at 25 and 25/3, a rated belief has its mean
  raised by one, the ordinal score is mean minus three times uncertainty.
\<close>

definition example_model :: PlackettLuce where
  "example_model =
     \<lparr>model_mu = 25, model_sigma = 25 / 3,
      rate = map (map (\<lambda>r. r\<lparr>mu := mu r + 1\<rparr>)),
      predict_draw = (\<lambda>ts. 1 / 2),
      ordinal = (\<lambda>r. mu r - 3 * sigma r)\<rparr>"

text \<open>
  A database of three players who have each played one game, a match of two against one that
  the larger team wins, a match that lists one player twice, a match of three teams, a match
  with one empty roster and a match with two.
\<close>

definition example_data :: "string \<Rightarrow> string \<Rightarrow> real \<Rightarrow> real \<Rightarrow> PlayerData" where
  "example_data pid nm m s =
     \<lparr>steam_name = nm, rating_data = \<lparr>name = pid, mu = m, sigma = s\<rparr>, player = True,
      games_played = 1, wins = 0, ans_games = 1, ans_wins = 0, osp_games = 0, osp_wins = 0,
      history = [(1, m - 3 * s)], teammates = Map.empty\<rparr>"

definition example_db :: database where
  "example_db =
     [''1001'' \<mapsto> example_data ''1001'' ''alice'' 25 8,
      ''1003'' \<mapsto> example_data ''1003'' ''carol'' 25 8,
      ''1002'' \<mapsto> example_data ''1002'' ''bob'' 20 4]"

definition uneven_match :: MatchData where
  "uneven_match =
     \<lparr>valid = True, time = 5,
      teams = [(Some ''TeamA'', [alice, carol]), (Some ''TeamB'', [bob])],
      winning_team = Some ''TeamA'', avg_dlo = 0, match_quality = 0\<rparr>"

definition repeated_match :: MatchData where
  "repeated_match =
     \<lparr>valid = True, time = 5,
      teams = [(Some ''TeamA'', [alice, alice]), (Some ''TeamB'', [bob])],
      winning_team = Some ''TeamA'', avg_dlo = 0, match_quality = 0\<rparr>"

definition three_team_match :: MatchData where
  "three_team_match =
     \<lparr>valid = True, time = 5,
      teams = [(Some ''TeamA'', [alice]), (Some ''TeamB'', [bob]), (Some ''TeamC'', [carol])],
      winning_team = Some ''TeamA'', avg_dlo = 0, match_quality = 0\<rparr>"

definition empty_team_match :: MatchData where
  "empty_team_match =
     \<lparr>valid = True, time = 5,
      teams = [(Some ''TeamA'', [alice]), (Some ''TeamB'', [])],
      winning_team = Some ''TeamA'', avg_dlo = 0, match_quality = 0\<rparr>"

definition no_players_match :: MatchData where
  "no_players_match =
     \<lparr>valid = True, time = 5,
      teams = [(Some ''TeamA'', []), (Some ''TeamB'', [])],
      winning_team = Some ''TeamA'', avg_dlo = 0, match_quality = 0\<rparr>"

definition alice_adjustment :: Adjustment where
  "alice_adjustment =
     \<lparr>steam_id = ''1001'', adj_name = ''alice'', mu_adjustment = 5,
      reason_for_adjustment = ''placement''\<rparr>"

definition unknown_adjustment :: Adjustment where
  "unknown_adjustment =
     \<lparr>steam_id = ''9999'', adj_name = ''nobody'', mu_adjustment = 5,
      reason_for_adjustment = ''placement''\<rparr>"

section \<open>Facts about the parser\<close>

lemma escaped_text_error: "escaped_text el = Inl e \<Longrightarrow> e = AttributeError"
  by (auto simp: escaped_text_def split: option.splits)

lemma parse_players_result:
  "parse_players pes tf acc = Inr (tf', acc') \<Longrightarrow>
     tf' = foldl update_team_faction tf pes \<and> length acc' = length acc + length pes"
proof (induction pes arbitrary: tf acc)
  case Nil
  then show ?case by simp
next
  case (Cons pe pes)
  then show ?case by (auto split: sum.splits)
qed

lemma parse_players_error: "parse_players pes tf acc = Inl e \<Longrightarrow> e = AttributeError"
proof (induction pes arbitrary: tf acc)
  case Nil
  then show ?case by simp
next
  case (Cons pe pes)
  then show ?case by (auto split: sum.splits dest: escaped_text_error)
qed

lemma parse_players_total:
  "\<forall>pe \<in> set pes. texts_present pe \<Longrightarrow> \<exists>r. parse_players pes tf acc = Inr r"
proof (induction pes arbitrary: tf acc)
  case Nil
  then show ?case by simp
next
  case (Cons pe pes)
  have a: "\<And>x. escaped_text x \<noteq> Inl AttributeError \<Longrightarrow> \<exists>s. escaped_text x = Inr s"
    by (auto simp: escaped_text_def split: option.splits)
  from Cons.prems obtain nm pid where
    "escaped_text (find_xml [''PlayerName''] pe) = Inr nm"
    "escaped_text (find_xml [''AccountId'', ''Value''] pe) = Inr pid"
    using a by (auto simp: texts_present_def) blast
  with Cons show ?case by simp
qed

lemma update_team_faction_sticky:
  "update_team_faction ''OSP'' pe = ''OSP''" "update_team_faction ''ANS'' pe = ''ANS''"
  by (simp_all add: update_team_faction_def)

lemma update_team_faction_unmarked:
  "update_team_faction '''' pe =
     (if is_player_ANS pe then ''ANS'' else if is_player_OSP pe then ''OSP'' else '''')"
  by (simp add: update_team_faction_def)

lemma foldl_faction_sticky:
  "foldl update_team_faction ''OSP'' pes = ''OSP''"
  "foldl update_team_faction ''ANS'' pes = ''ANS''"
  by (induction pes) (simp_all add: update_team_faction_sticky)

lemma foldl_faction_first:
  "foldl update_team_faction '''' pes =
     (case List.find (\<lambda>pe. is_player_ANS pe \<or> is_player_OSP pe) pes of
        None \<Rightarrow> ''''
      | Some pe \<Rightarrow> if is_player_ANS pe then ''ANS'' else ''OSP'')"
  by (induction pes) (simp_all add: update_team_faction_unmarked foldl_faction_sticky)

lemma foldl_faction_unresolved:
  "\<forall>pe \<in> set pes. \<not> is_player_ANS pe \<and> \<not> is_player_OSP pe \<Longrightarrow>
     foldl update_team_faction tf pes = tf"
  by (induction pes) (simp_all add: update_team_faction_def)

lemma parse_team_error:
  "parse_team te = Inl e \<Longrightarrow> e = AssertionError \<or> e = AttributeError"
  by (auto simp: parse_team_def Let_def split: sum.splits if_splits dest: parse_players_error)

lemma parse_team_factions:
  assumes "parse_team te = Inr (tid, ps)" and "p \<in> set ps"
  shows "faction p = ''ANS'' \<or> faction p = ''OSP''"
proof -
  from assms(1) have "list_all (\<lambda>p. faction p \<in> set [''ANS'', ''OSP'']) ps"
    by (auto simp: parse_team_def Let_def split: sum.splits if_splits)
  with assms(2) have "faction p \<in> set [''ANS'', ''OSP'']"
    by (simp add: list_all_iff)
  then show ?thesis by auto
qed

lemma parse_team_unresolved:
  assumes "player_elements te \<noteq> []"
      and "\<forall>pe \<in> set (player_elements te). \<not> is_player_ANS pe \<and> \<not> is_player_OSP pe"
  shows "\<exists>e. parse_team te = Inl e"
proof (cases "parse_players (player_elements te) '''' []")
  case (Inl e)
  then show ?thesis by (simp add: parse_team_def player_elements_def)
next
  case (Inr r)
  obtain tf entries where r: "r = (tf, entries)" by (cases r)
  from Inr r parse_players_result [of "player_elements te" "''''" "[]" tf entries]
  have tf: "tf = foldl update_team_faction '''' (player_elements te)"
    and len: "length entries = length (player_elements te)" by simp_all
  from tf assms(2) have "tf = ''''" by (simp add: foldl_faction_unresolved)
  moreover from len assms(1) have "entries \<noteq> []" by auto
  ultimately have "parse_team te = Inl AssertionError"
    using Inr r by (cases entries) (auto simp: parse_team_def player_elements_def)
  then show ?thesis by blast
qed

lemma parse_team_texts_present:
  "\<forall>pe \<in> set (player_elements te). texts_present pe \<Longrightarrow> parse_team te \<noteq> Inl AttributeError"
  using parse_players_total [of "player_elements te" "''''" "[]"]
  by (auto simp: parse_team_def player_elements_def Let_def split: sum.splits)

lemma parse_teams_fails:
  "te \<in> set tes \<Longrightarrow> parse_team te = Inl e \<Longrightarrow> \<exists>e'. parse_teams tes acc = Inl e'"
proof (induction tes arbitrary: acc)
  case Nil
  then show ?case by simp
next
  case (Cons a tes)
  then show ?case by (cases "parse_team a") auto
qed

lemma parse_teams_error:
  "parse_teams tes acc = Inl e \<Longrightarrow> \<exists>te \<in> set tes. parse_team te = Inl e"
proof (induction tes arbitrary: acc)
  case Nil
  then show ?case by simp
next
  case (Cons a tes)
  then show ?case by (cases "parse_team a") auto
qed

lemma set_alist_update: "set (AList.update k v al) \<subseteq> insert (k, v) (set al)"
  by (induction al) auto

lemma parse_teams_factions:
  assumes "parse_teams tes acc = Inr teams_data"
      and "\<forall>(tid, ps) \<in> set acc. \<forall>p \<in> set ps. faction p = ''ANS'' \<or> faction p = ''OSP''"
  shows "\<forall>(tid, ps) \<in> set teams_data. \<forall>p \<in> set ps. faction p = ''ANS'' \<or> faction p = ''OSP''"
  using assms
proof (induction tes arbitrary: acc)
  case Nil
  then show ?case by simp
next
  case (Cons a tes)
  from Cons.prems(1) obtain tid ps where a: "parse_team a = Inr (tid, ps)"
    and rest: "parse_teams tes (AList.update tid ps acc) = Inr teams_data"
    by (auto split: sum.splits)
  have "\<forall>(tid, ps) \<in> set (AList.update tid ps acc).
          \<forall>p \<in> set ps. faction p = ''ANS'' \<or> faction p = ''OSP''"
    using Cons.prems(2) parse_team_factions [OF a] set_alist_update [of tid ps acc]
    by auto
  with Cons.IH rest show ?case by blast
qed

section \<open>Facts about the match processor\<close>

lemma process_player_result:
  assumes "process_player M tid w players p db = Inr (db', r)"
  shows "r = current_rating M db (player_id p)"
    and "current_rating M db' k = current_rating M db k"
    and "games_of db' k = games_of db k + (if k = player_id p then 1 else 0)"
    and "history_of db' k = history_of db k"
    and "dom db' = insert (player_id p) (dom db)"
  using assms
  by (auto simp: process_player_def Let_def current_rating_def games_of_def history_of_def
        new_player_def rating_def split: if_splits option.splits)

lemma process_player_total:
  "faction p = ''ANS'' \<or> faction p = ''OSP'' \<Longrightarrow>
     \<exists>res. process_player M tid w players p db = Inr res"
  by (auto simp: process_player_def Let_def)

lemma team_loop_result:
  assumes "team_loop M tid w players todo db acc = Inr (db', rs)"
  shows "rs = acc @ beliefs M db todo
         \<and> (\<forall>k. current_rating M db' k = current_rating M db k)
         \<and> (\<forall>k. games_of db' k = games_of db k + int (count_list (map player_id todo) k))
         \<and> (\<forall>k. history_of db' k = history_of db k)
         \<and> dom db' = dom db \<union> set (map player_id todo)"
  using assms
proof (induction todo arbitrary: db acc)
  case Nil
  then show ?case by (simp add: beliefs_def)
next
  case (Cons p todo)
  from Cons.prems obtain db1 r where
    pp: "process_player M tid w players p db = Inr (db1, r)"
    and rest: "team_loop M tid w players todo db1 (acc @ [r]) = Inr (db', rs)"
    by (auto split: sum.splits)
  note ih = Cons.IH [OF rest]
  note pr = process_player_result [OF pp]
  have b: "beliefs M db1 todo = beliefs M db todo"
    by (simp add: beliefs_def pr(2))
  show ?case
    using ih pr(1) pr(5) b
    by (auto simp: pr(2) pr(3) pr(4) beliefs_def)
qed

lemma team_loop_total:
  "\<forall>p \<in> set todo. faction p = ''ANS'' \<or> faction p = ''OSP'' \<Longrightarrow>
     \<exists>res. team_loop M tid w players todo db acc = Inr res"
proof (induction todo arbitrary: db acc)
  case Nil
  then show ?case by simp
next
  case (Cons p todo)
  then obtain db1 r where "process_player M tid w players p db = Inr (db1, r)"
    using process_player_total [of p M tid w players db] by auto
  with Cons show ?case by simp
qed
lemma games_of_upd:
  "games_of (db(k' \<mapsto> d')) k = (if k = k' then games_played d' else games_of db k)"
  by (simp add: games_of_def)

lemma history_of_upd:
  "history_of (db(k' \<mapsto> d')) k = (if k = k' then history d' else history_of db k)"
  by (simp add: history_of_def)

lemma current_rating_upd:
  "current_rating M (db(k' \<mapsto> d')) k = (if k = k' then rating_data d' else current_rating M db k)"
  by (simp add: current_rating_def)

lemma teams_loop_result:
  assumes "teams_loop M w ts db acc = Inr (db', upd)"
  shows "upd = fold (\<lambda>(tid, ps). AList.update tid (beliefs M db ps)) ts acc
         \<and> (\<forall>k. current_rating M db' k = current_rating M db k)
         \<and> (\<forall>k. games_of db' k
                 = games_of db k + int (count_list (map player_id (concat (map snd ts))) k))
         \<and> (\<forall>k. history_of db' k = history_of db k)
         \<and> dom db' = dom db \<union> set (map player_id (concat (map snd ts)))"
  using assms
proof (induction ts arbitrary: db acc)
  case Nil
  then show ?case by simp
next
  case (Cons a ts)
  obtain tid ps where a: "a = (tid, ps)" by (cases a)
  from Cons.prems a obtain db1 rs where
    tl: "team_loop M tid w ps ps db [] = Inr (db1, rs)"
    and rest: "teams_loop M w ts db1 (AList.update tid rs acc) = Inr (db', upd)"
    by (auto split: sum.splits)
  note ih = Cons.IH [OF rest]
  note t = team_loop_result [OF tl]
  have b: "\<And>qs. beliefs M db1 qs = beliefs M db qs"
    using t by (simp add: beliefs_def)
  from t have rs: "rs = beliefs M db ps" by simp
  have 1: "upd = fold (\<lambda>(tid, ps). AList.update tid (beliefs M db ps)) (a # ts) acc"
    using ih by (simp add: a b rs)
  have 2: "\<forall>k. current_rating M db' k = current_rating M db k"
    using ih t by simp
  have 3: "\<forall>k. games_of db' k
                 = games_of db k + int (count_list (map player_id (concat (map snd (a # ts)))) k)"
    using ih t by (simp add: a)
  have 4: "\<forall>k. history_of db' k = history_of db k"
    using ih t by simp
  have 5: "dom db' = dom db \<union> set (map player_id (concat (map snd (a # ts))))"
    using ih t by (simp add: a Un_assoc)
  from 1 2 3 4 5 show ?case by blast
qed

lemma teams_loop_total:
  "\<forall>p \<in> set (concat (map snd ts)). faction p = ''ANS'' \<or> faction p = ''OSP'' \<Longrightarrow>
     \<exists>res. teams_loop M w ts db acc = Inr res"
proof (induction ts arbitrary: db acc)
  case Nil
  then show ?case by simp
next
  case (Cons a ts)
  obtain tid ps where a: "a = (tid, ps)" by (cases a)
  from Cons.prems a obtain db1 rs where "team_loop M tid w ps ps db [] = Inr (db1, rs)"
    using team_loop_total [of ps M tid w ps db "[]"] by auto
  with Cons a show ?case by simp
qed

lemma names_ok_current_rating: "names_ok db \<Longrightarrow> name (current_rating M db k) = k"
  by (auto simp: names_ok_def current_rating_def rating_def split: option.splits)

lemma names_ok_from_current_rating:
  assumes "names_ok db" and "\<forall>k. current_rating M db' k = current_rating M db k"
  shows "names_ok db'"
  unfolding names_ok_def
proof (intro allI impI)
  fix k d
  assume "db' k = Some d"
  then have "rating_data d = current_rating M db' k" by (simp add: current_rating_def)
  with assms show "name (rating_data d) = k" by (simp add: names_ok_current_rating)
qed

lemma append_history_step:
  assumes "db k' = Some d" and "db1 = db(k' \<mapsto> d\<lparr>history := history d @ [e]\<rparr>)"
  shows "current_rating M db1 k = current_rating M db k"
    and "games_of db1 k = games_of db k"
    and "length (history_of db1 k) = length (history_of db k) + (if k' = k then 1 else 0)"
    and "dom db1 = dom db"
  using assms
  by (auto simp: current_rating_def games_of_def history_of_def)

lemma append_history_result:
  assumes "append_history M t rs db = Inr db'"
  shows "(\<forall>k. current_rating M db' k = current_rating M db k)
         \<and> (\<forall>k. games_of db' k = games_of db k)
         \<and> (\<forall>k. length (history_of db' k)
                 = length (history_of db k) + count_list (map name rs) k)
         \<and> dom db' = dom db"
  using assms
proof (induction rs arbitrary: db)
  case Nil
  then show ?case by simp
next
  case (Cons r rs)
  from Cons.prems obtain d where d: "db (name r) = Some d"
    by (auto split: option.splits)
  define db1 where
    "db1 = db(name r \<mapsto> d\<lparr>history := history d @ [(t, ordinal M (rating_data d))]\<rparr>)"
  from Cons.prems d have rest: "append_history M t rs db1 = Inr db'"
    by (simp add: db1_def)
  note ih = Cons.IH [OF rest]
  note st = append_history_step [OF d db1_def]
  have 1: "\<forall>k. current_rating M db' k = current_rating M db k"
    using ih by (simp add: st(1))
  have 2: "\<forall>k. games_of db' k = games_of db k"
    using ih by (simp add: st(2))
  have 3: "\<forall>k. length (history_of db' k)
                 = length (history_of db k) + count_list (map name (r # rs)) k"
    using ih by (simp add: st(3))
  have 4: "dom db' = dom db"
    using ih by (simp add: st(4))
  from 1 2 3 4 show ?case by blast
qed

lemma append_history_total:
  "set (map name rs) \<subseteq> dom db \<Longrightarrow> \<exists>db'. append_history M t rs db = Inr db'"
proof (induction rs arbitrary: db)
  case Nil
  then show ?case by simp
next
  case (Cons r rs)
  then obtain d where d: "db (name r) = Some d" by auto
  let ?db1 = "db(name r \<mapsto> d\<lparr>history := history d @ [(t, ordinal M (rating_data d))]\<rparr>)"
  have "set (map name rs) \<subseteq> dom ?db1"
    using Cons.prems by auto
  from Cons.IH [OF this] obtain db' where r: "append_history M t rs ?db1 = Inr db'"
    by blast
  have "append_history M t (r # rs) db = append_history M t rs ?db1"
    by (simp only: append_history.simps d option.case)
  with r show ?case by simp
qed
lemma write_back_step:
  assumes "db k' = Some d" and "history d \<noteq> []"
      and "db1 = db(k' \<mapsto> d\<lparr>rating_data := r,
                       history := (history d)[length (history d) - 1 := e]\<rparr>)"
  shows "games_of db1 k = games_of db k"
    and "length (history_of db1 k) = length (history_of db k)"
    and "dom db1 = dom db"
    and "name r = k' \<Longrightarrow> names_ok db \<Longrightarrow> names_ok db1"
    and "k \<noteq> k' \<Longrightarrow> db1 k = db k"
    and "db1 k' = Some (d\<lparr>rating_data := r,
                       history := (history d)[length (history d) - 1 := e]\<rparr>)"
  using assms
  by (auto simp: games_of_def history_of_def names_ok_def)

lemma write_back_team_cons:
  assumes "write_back_team M t (r # rs) db = Inr db'" and "name r \<noteq> ''TEST_PLAYER''"
  shows "\<exists>d. db (name r) = Some d \<and> history d \<noteq> []
             \<and> write_back_team M t rs
                   (db(name r \<mapsto> d\<lparr>rating_data := r,
                        history := (history d)[length (history d) - 1 := (t, ordinal M r)]\<rparr>))
                 = Inr db'"
  using assms by (auto split: option.splits if_splits)

lemma write_back_team_result:
  assumes "write_back_team M t rs db = Inr db'"
  shows "(\<forall>k. games_of db' k = games_of db k)
         \<and> (\<forall>k. length (history_of db' k) = length (history_of db k))
         \<and> dom db' = dom db
         \<and> (names_ok db \<longrightarrow> names_ok db')"
  using assms
proof (induction rs arbitrary: db)
  case Nil
  then show ?case by simp
next
  case (Cons r rs)
  show ?case
  proof (cases "name r = ''TEST_PLAYER''")
    case True
    with Cons show ?thesis by simp
  next
    case False
    from write_back_team_cons [OF Cons.prems False] obtain d where
      d: "db (name r) = Some d" and h: "history d \<noteq> []"
      and rest: "write_back_team M t rs
                   (db(name r \<mapsto> d\<lparr>rating_data := r,
                        history := (history d)[length (history d) - 1 := (t, ordinal M r)]\<rparr>))
                 = Inr db'"
      by blast
    define db1 where
      "db1 = db(name r \<mapsto> d\<lparr>rating_data := r,
                        history := (history d)[length (history d) - 1 := (t, ordinal M r)]\<rparr>)"
    from rest have rest1: "write_back_team M t rs db1 = Inr db'"
      by (simp only: db1_def)
    note ih = Cons.IH [OF rest1]
    note st = write_back_step [OF d h db1_def]
    have 1: "\<forall>k. games_of db' k = games_of db k"
      using ih by (simp add: st(1))
    have 2: "\<forall>k. length (history_of db' k) = length (history_of db k)"
      using ih by (simp add: st(2))
    have 3: "dom db' = dom db"
      using ih by (simp add: st(3))
    have 4: "names_ok db \<longrightarrow> names_ok db'"
      using ih st(4) by blast
    from 1 2 3 4 show ?thesis by blast
  qed
qed

lemma write_back_team_untouched:
  assumes "write_back_team M t rs db = Inr db'"
      and "k \<notin> set (map name rs) \<or> k = ''TEST_PLAYER''"
  shows "db' k = db k"
  using assms
proof (induction rs arbitrary: db)
  case Nil
  then show ?case by simp
next
  case (Cons r rs)
  show ?case
  proof (cases "name r = ''TEST_PLAYER''")
    case True
    with Cons show ?thesis by auto
  next
    case False
    from write_back_team_cons [OF Cons.prems(1) False] obtain d where
      d: "db (name r) = Some d" and h: "history d \<noteq> []"
      and rest: "write_back_team M t rs
                   (db(name r \<mapsto> d\<lparr>rating_data := r,
                        history := (history d)[length (history d) - 1 := (t, ordinal M r)]\<rparr>))
                 = Inr db'"
      by blast
    define db1 where
      "db1 = db(name r \<mapsto> d\<lparr>rating_data := r,
                        history := (history d)[length (history d) - 1 := (t, ordinal M r)]\<rparr>)"
    from rest have rest1: "write_back_team M t rs db1 = Inr db'"
      by (simp only: db1_def)
    from Cons.prems(2) False have k: "k \<notin> set (map name rs) \<or> k = ''TEST_PLAYER''"
      and kr: "k \<noteq> name r" by auto
    from Cons.IH [OF rest1 k] write_back_step(5) [OF d h db1_def kr]
    show ?thesis by simp
  qed
qed

lemma write_back_team_last:
  assumes "write_back_team M t rs db = Inr db'"
      and "k \<in> set (map name rs)" and "k \<noteq> ''TEST_PLAYER''"
  shows "\<exists>d r. db' k = Some d \<and> r \<in> set rs \<and> name r = k \<and> rating_data d = r
               \<and> history d \<noteq> [] \<and> last (history d) = (t, ordinal M r)"
  using assms
proof (induction rs arbitrary: db)
  case Nil
  then show ?case by simp
next
  case (Cons r rs)
  have sub: "\<exists>db1. write_back_team M t rs db1 = Inr db'"
  proof (cases "name r = ''TEST_PLAYER''")
    case True
    with Cons.prems(1) show ?thesis by auto
  next
    case False
    from write_back_team_cons [OF Cons.prems(1) False] show ?thesis by blast
  qed
  show ?case
  proof (cases "k \<in> set (map name rs)")
    case True
    from sub obtain db1 where "write_back_team M t rs db1 = Inr db'" by blast
    from Cons.IH [OF this True Cons.prems(3)] show ?thesis by auto
  next
    case False
    with Cons.prems(2) have kr: "name r = k" by simp
    with Cons.prems(3) have nt: "name r \<noteq> ''TEST_PLAYER''" by simp
    from write_back_team_cons [OF Cons.prems(1) nt] obtain d where
      d: "db (name r) = Some d" and h: "history d \<noteq> []"
      and rest: "write_back_team M t rs
                   (db(name r \<mapsto> d\<lparr>rating_data := r,
                        history := (history d)[length (history d) - 1 := (t, ordinal M r)]\<rparr>))
                 = Inr db'"
      by blast
    define db1 where
      "db1 = db(name r \<mapsto> d\<lparr>rating_data := r,
                        history := (history d)[length (history d) - 1 := (t, ordinal M r)]\<rparr>)"
    from rest have rest1: "write_back_team M t rs db1 = Inr db'"
      by (simp only: db1_def)
    from write_back_team_untouched [OF rest1] False have "db' k = db1 k" by blast
    with write_back_step(6) [OF d h db1_def] kr
    have "db' k = Some (d\<lparr>rating_data := r,
                        history := (history d)[length (history d) - 1 := (t, ordinal M r)]\<rparr>)"
      by simp
    with h kr show ?thesis
      by (auto simp: last_list_update)
  qed
qed

lemma write_back_team_total:
  assumes "\<forall>r \<in> set rs. name r \<noteq> ''TEST_PLAYER'' \<longrightarrow> history_of db (name r) \<noteq> []"
  shows "\<exists>db'. write_back_team M t rs db = Inr db'"
  using assms
proof (induction rs arbitrary: db)
  case Nil
  then show ?case by simp
next
  case (Cons r rs)
  show ?case
  proof (cases "name r = ''TEST_PLAYER''")
    case True
    with Cons show ?thesis by simp
  next
    case False
    with Cons.prems obtain d where d: "db (name r) = Some d" and h: "history d \<noteq> []"
      by (auto simp: history_of_def split: option.splits)
    define db1 where
      "db1 = db(name r \<mapsto> d\<lparr>rating_data := r,
                        history := (history d)[length (history d) - 1 := (t, ordinal M r)]\<rparr>)"
    have "\<forall>k. history_of db k \<noteq> [] \<longrightarrow> history_of db1 k \<noteq> []"
      using write_back_step(2) [OF d h db1_def] by (metis length_0_conv)
    with Cons.prems
    have "\<forall>r \<in> set rs. name r \<noteq> ''TEST_PLAYER'' \<longrightarrow> history_of db1 (name r) \<noteq> []"
      by simp
    from Cons.IH [OF this] obtain db' where r: "write_back_team M t rs db1 = Inr db'"
      by blast
    have "write_back_team M t (r # rs) db = write_back_team M t rs db1"
      using False d h by (simp add: db1_def)
    with r show ?thesis by simp
  qed
qed

lemma write_back_team_append:
  "write_back_team M t (xs @ ys) db =
     (case write_back_team M t xs db of
        Inl e \<Rightarrow> Inl e | Inr db1 \<Rightarrow> write_back_team M t ys db1)"
  by (induction xs arbitrary: db) (auto split: option.splits)

lemma write_back_concat: "write_back M t tss db = write_back_team M t (concat tss) db"
  by (induction tss arbitrary: db) (auto simp: write_back_team_append split: sum.splits)
lemma average_result: "average xs n = Inr a \<Longrightarrow> a = sum_list xs / real n \<and> n \<noteq> 0"
  by (auto simp: average_def split: if_splits)

lemma pad_team_result:
  assumes "pad_team M n team = Inr w"
  shows "w = team @ replicate (n - length team)
                     (rating M ''TEST_PLAYER''
                        (Some (sum_list (map mu team) / real (length team)))
                        (Some (sum_list (map sigma team) / real (length team))))"
  using assms
  by (auto simp: pad_team_def average_def split: if_splits)

lemma pad_team_total:
  "length team < n \<longrightarrow> team \<noteq> [] \<Longrightarrow> \<exists>w. pad_team M n team = Inr w"
  by (auto simp: pad_team_def average_def)

lemma pad_team_error:
  "pad_team M n team = Inl e \<Longrightarrow> e = ZeroDivisionError \<and> team = [] \<and> 0 < n"
  by (auto simp: pad_team_def average_def split: if_splits)

lemma balance_teams_result:
  assumes "balance_teams M wt ot = Inr (w, padded_other)"
  shows "w = wt @ replicate (length ot - length wt)
                   (rating M ''TEST_PLAYER''
                      (Some (sum_list (map mu wt) / real (length wt)))
                      (Some (sum_list (map sigma wt) / real (length wt))))"
    and "padded_other = ot @ replicate (length wt - length ot)
                   (rating M ''TEST_PLAYER''
                      (Some (sum_list (map mu ot) / real (length ot)))
                      (Some (sum_list (map sigma ot) / real (length ot))))"
    and "length w = length padded_other"
proof -
  from assms have pw: "pad_team M (max (length wt) (length ot)) wt = Inr w"
    and po: "pad_team M (max (length wt) (length ot)) ot = Inr padded_other"
    by (auto simp: balance_teams_def Let_def split: sum.splits)
  have m1: "max (length wt) (length ot) - length wt = length ot - length wt" by simp
  have m2: "max (length wt) (length ot) - length ot = length wt - length ot" by simp
  from pad_team_result [OF pw] show 1: "w = wt @ replicate (length ot - length wt)
                   (rating M ''TEST_PLAYER''
                      (Some (sum_list (map mu wt) / real (length wt)))
                      (Some (sum_list (map sigma wt) / real (length wt))))"
    by (simp only: m1)
  from pad_team_result [OF po] show 2: "padded_other = ot @ replicate (length wt - length ot)
                   (rating M ''TEST_PLAYER''
                      (Some (sum_list (map mu ot) / real (length ot)))
                      (Some (sum_list (map sigma ot) / real (length ot))))"
    by (simp only: m2)
  have "length w = length wt + (length ot - length wt)" by (subst 1) simp
  moreover have "length padded_other = length ot + (length wt - length ot)" by (subst 2) simp
  ultimately show "length w = length padded_other" by simp
qed

lemma balance_teams_total:
  assumes "length wt < length ot \<longrightarrow> wt \<noteq> []" and "length ot < length wt \<longrightarrow> ot \<noteq> []"
  shows "\<exists>res. balance_teams M wt ot = Inr res"
proof -
  from assms(1) obtain w where "pad_team M (max (length wt) (length ot)) wt = Inr w"
    using pad_team_total [of wt "max (length wt) (length ot)" M] by auto
  moreover from assms(2) obtain p where "pad_team M (max (length wt) (length ot)) ot = Inr p"
    using pad_team_total [of ot "max (length wt) (length ot)" M] by auto
  ultimately show ?thesis by (simp add: balance_teams_def)
qed

lemma balance_teams_error:
  assumes "balance_teams M wt ot = Inl e"
  shows "e = ZeroDivisionError \<and> (wt = [] \<and> ot \<noteq> [] \<or> ot = [] \<and> wt \<noteq> [])"
proof (cases "pad_team M (max (length wt) (length ot)) wt")
  case (Inl e1)
  with assms have "e = e1" by (simp add: balance_teams_def)
  with pad_team_error [OF Inl] show ?thesis by auto
next
  case (Inr w)
  with assms have "pad_team M (max (length wt) (length ot)) ot = Inl e"
    by (simp add: balance_teams_def split: sum.splits)
  from pad_team_error [OF this] show ?thesis by auto
qed

lemma match_metrics_result:
  assumes "match_metrics M w ot = Inr (a, q)"
  shows "a = sum_list (map mu (w @ ot)) / real (length (w @ ot))
             - 3 * (sum_list (map sigma (w @ ot)) / real (length (w @ ot)))"
    and "q = predict_draw M [w, ot]"
    and "w @ ot \<noteq> []"
  using assms
  by (auto simp: match_metrics_def average_def split: if_splits)

lemma match_metrics_total: "w @ ot \<noteq> [] \<Longrightarrow> \<exists>res. match_metrics M w ot = Inr res"
  by (auto simp: match_metrics_def average_def)

lemma two_team_cases:
  assumes "two_team_match m"
  obtains ta pa tb pb where "teams m = [(ta, pa), (tb, pb)]" and "ta \<noteq> tb"
    and "winning_team m = ta \<and> winner_roster m = pa \<and> other_roster m = pb
         \<or> winning_team m = tb \<and> winner_roster m = pb \<and> other_roster m = pa"
proof -
  from assms have len: "length (teams m) = 2" and dist: "distinct (map fst (teams m))"
    and win: "winning_team m \<in> set (map fst (teams m))"
    by (simp_all add: two_team_match_def)
  from len obtain x y where xy: "teams m = [x, y]"
    by (cases "teams m"; cases "tl (teams m)"; auto)
  obtain ta pa where x: "x = (ta, pa)" by (cases x)
  obtain tb pb where y: "y = (tb, pb)" by (cases y)
  from dist xy x y have ne: "ta \<noteq> tb" by simp
  from win xy x y have "winning_team m = ta \<or> winning_team m = tb" by auto
  with ne xy x y have
    "winning_team m = ta \<and> winner_roster m = pa \<and> other_roster m = pb
     \<or> winning_team m = tb \<and> winner_roster m = pb \<and> other_roster m = pa"
    by (auto simp: winner_roster_def other_roster_def AList.delete_eq)
  with xy x y ne show ?thesis using that by blast
qed

lemma process_match_result_two_team:
  assumes "two_team_match m"
  shows "process_match_result M m hist db =
     (case teams_loop M (winning_team m) (teams m) db [] of
        Inl e \<Rightarrow> Inl e
      | Inr (db1, upd) \<Rightarrow>
          (case append_history M (time m)
                  (beliefs M db (winner_roster m) @ beliefs M db (other_roster m)) db1 of
             Inl e \<Rightarrow> Inl e
           | Inr db2 \<Rightarrow>
               (case balance_teams M (beliefs M db (winner_roster m))
                       (beliefs M db (other_roster m)) of
                  Inl e \<Rightarrow> Inl e
                | Inr (w, ot) \<Rightarrow>
                    (case match_metrics M w ot of
                       Inl e \<Rightarrow> Inl e
                     | Inr (a, q) \<Rightarrow>
                         (case write_back_team M (time m) (concat (rate M [w, ot])) db2 of
                            Inl e \<Rightarrow> Inl e
                          | Inr db3 \<Rightarrow>
                              Inr (db3, hist @ [m\<lparr>avg_dlo := a, match_quality := q\<rparr>],
                                   m\<lparr>avg_dlo := a, match_quality := q\<rparr>))))))"
proof -
  from assms have ok: "\<not> (\<not> valid m \<or> winning_team m \<notin> set (map fst (teams m)))"
    by (simp add: two_team_match_def)
  show ?thesis
  proof (cases "teams_loop M (winning_team m) (teams m) db []")
    case (Inl e)
    with ok show ?thesis by (simp add: process_match_result_def)
  next
    case (Inr res)
    obtain db1 upd where res: "res = (db1, upd)" by (cases res)
    from two_team_cases [OF assms] obtain ta pa tb pb where
      tm: "teams m = [(ta, pa), (tb, pb)]" and ne: "ta \<noteq> tb"
      and w: "winning_team m = ta \<and> winner_roster m = pa \<and> other_roster m = pb
              \<or> winning_team m = tb \<and> winner_roster m = pb \<and> other_roster m = pa"
      by blast
    from teams_loop_result [of M "winning_team m" "teams m" db "[]" db1 upd] Inr res
    have upd: "upd = [(ta, beliefs M db pa), (tb, beliefs M db pb)]"
      using ne by (simp add: tm)
    from w ne have sel: "map_of upd (winning_team m) = Some (beliefs M db (winner_roster m))"
      "AList.delete (winning_team m) upd
         = [(if winning_team m = ta then tb else ta, beliefs M db (other_roster m))]"
      by (auto simp: upd AList.delete_eq)
    show ?thesis
      using ok Inr res sel
      by (simp add: process_match_result_def write_back_concat Let_def
               split: sum.splits prod.splits)
  qed
qed
lemma two_team_participants:
  assumes "two_team_match m"
  shows "count_list (participants m) k
           = count_list (map player_id (winner_roster m @ other_roster m)) k"
    and "set (participants m) = set (map player_id (winner_roster m @ other_roster m))"
proof -
  from assms obtain ta pa tb pb where
    tm: "teams m = [(ta, pa), (tb, pb)]" and ne: "ta \<noteq> tb"
    and w: "winning_team m = ta \<and> winner_roster m = pa \<and> other_roster m = pb
            \<or> winning_team m = tb \<and> winner_roster m = pb \<and> other_roster m = pa"
    by (rule two_team_cases)
  from w show "count_list (participants m) k
           = count_list (map player_id (winner_roster m @ other_roster m)) k"
    by (auto simp: participants_def tm)
  from w show "set (participants m) = set (map player_id (winner_roster m @ other_roster m))"
    by (auto simp: participants_def tm)
qed

lemma names_of_beliefs: "names_ok db \<Longrightarrow> map name (beliefs M db ps) = map player_id ps"
  by (simp add: beliefs_def names_ok_current_rating)

text \<open>
  The phases of a run of \<^verbatim>\<open>process_match_result\<close> that returns, on a valid two-team match:
  the database after the first loop, after the history entries, and after the write-back.
\<close>

lemma process_two_team_phases:
  assumes "two_team_match m" and "process_match_result M m hist db = Inr (db', hist', m')"
  obtains db1 db2 w ot where
    "\<forall>k. current_rating M db1 k = current_rating M db k"
    "\<forall>k. games_of db1 k = games_of db k + int (count_list (participants m) k)"
    "\<forall>k. history_of db1 k = history_of db k"
    "dom db1 = dom db \<union> set (participants m)"
    "append_history M (time m)
       (beliefs M db (winner_roster m) @ beliefs M db (other_roster m)) db1 = Inr db2"
    "balance_teams M (beliefs M db (winner_roster m)) (beliefs M db (other_roster m))
       = Inr (w, ot)"
    "match_metrics M w ot = Inr (avg_dlo m', match_quality m')"
    "write_back_team M (time m) (concat (rate M [w, ot])) db2 = Inr db'"
    "m' = m\<lparr>avg_dlo := avg_dlo m', match_quality := match_quality m'\<rparr>"
    "hist' = hist @ [m']"
proof -
  note eq = process_match_result_two_team [OF assms(1), of M hist db]
  have x0: "(case teams_loop M (winning_team m) (teams m) db [] of
        Inl e \<Rightarrow> Inl e
      | Inr (db1, upd) \<Rightarrow>
          (case append_history M (time m)
                  (beliefs M db (winner_roster m) @ beliefs M db (other_roster m)) db1 of
             Inl e \<Rightarrow> Inl e
           | Inr db2 \<Rightarrow>
               (case balance_teams M (beliefs M db (winner_roster m))
                       (beliefs M db (other_roster m)) of
                  Inl e \<Rightarrow> Inl e
                | Inr (w, ot) \<Rightarrow>
                    (case match_metrics M w ot of
                       Inl e \<Rightarrow> Inl e
                     | Inr (a, q) \<Rightarrow>
                         (case write_back_team M (time m) (concat (rate M [w, ot])) db2 of
                            Inl e \<Rightarrow> Inl e
                          | Inr db3 \<Rightarrow>
                              Inr (db3, hist @ [m\<lparr>avg_dlo := a, match_quality := q\<rparr>],
                                   m\<lparr>avg_dlo := a, match_quality := q\<rparr>))))))
      = Inr (db', hist', m')"
    using assms(2) by (simp only: eq)
  obtain db1 upd where
    tl: "teams_loop M (winning_team m) (teams m) db [] = Inr (db1, upd)"
  proof (cases "teams_loop M (winning_team m) (teams m) db []")
    case (Inl e)
    with x0 show ?thesis by simp
  next
    case (Inr r)
    then show ?thesis using that by (cases r) simp
  qed
  have x1: "(case append_history M (time m)
                  (beliefs M db (winner_roster m) @ beliefs M db (other_roster m)) db1 of
             Inl e \<Rightarrow> Inl e
           | Inr db2 \<Rightarrow>
               (case balance_teams M (beliefs M db (winner_roster m))
                       (beliefs M db (other_roster m)) of
                  Inl e \<Rightarrow> Inl e
                | Inr (w, ot) \<Rightarrow>
                    (case match_metrics M w ot of
                       Inl e \<Rightarrow> Inl e
                     | Inr (a, q) \<Rightarrow>
                         (case write_back_team M (time m) (concat (rate M [w, ot])) db2 of
                            Inl e \<Rightarrow> Inl e
                          | Inr db3 \<Rightarrow>
                              Inr (db3, hist @ [m\<lparr>avg_dlo := a, match_quality := q\<rparr>],
                                   m\<lparr>avg_dlo := a, match_quality := q\<rparr>)))))
      = Inr (db', hist', m')"
    using x0 by (simp only: tl sum.case prod.case)
  obtain db2 where
    ah: "append_history M (time m)
           (beliefs M db (winner_roster m) @ beliefs M db (other_roster m)) db1 = Inr db2"
  proof (cases "append_history M (time m)
           (beliefs M db (winner_roster m) @ beliefs M db (other_roster m)) db1")
    case (Inl e)
    with x1 show ?thesis by simp
  next
    case (Inr r)
    then show ?thesis using that by simp
  qed
  have x2: "(case balance_teams M (beliefs M db (winner_roster m))
                       (beliefs M db (other_roster m)) of
                  Inl e \<Rightarrow> Inl e
                | Inr (w, ot) \<Rightarrow>
                    (case match_metrics M w ot of
                       Inl e \<Rightarrow> Inl e
                     | Inr (a, q) \<Rightarrow>
                         (case write_back_team M (time m) (concat (rate M [w, ot])) db2 of
                            Inl e \<Rightarrow> Inl e
                          | Inr db3 \<Rightarrow>
                              Inr (db3, hist @ [m\<lparr>avg_dlo := a, match_quality := q\<rparr>],
                                   m\<lparr>avg_dlo := a, match_quality := q\<rparr>))))
      = Inr (db', hist', m')"
    using x1 by (simp only: ah sum.case)
  obtain w ot where
    bt: "balance_teams M (beliefs M db (winner_roster m)) (beliefs M db (other_roster m))
           = Inr (w, ot)"
  proof (cases "balance_teams M (beliefs M db (winner_roster m))
                  (beliefs M db (other_roster m))")
    case (Inl e)
    with x2 show ?thesis by simp
  next
    case (Inr r)
    then show ?thesis using that by (cases r) simp
  qed
  have x3: "(case match_metrics M w ot of
                       Inl e \<Rightarrow> Inl e
                     | Inr (a, q) \<Rightarrow>
                         (case write_back_team M (time m) (concat (rate M [w, ot])) db2 of
                            Inl e \<Rightarrow> Inl e
                          | Inr db3 \<Rightarrow>
                              Inr (db3, hist @ [m\<lparr>avg_dlo := a, match_quality := q\<rparr>],
                                   m\<lparr>avg_dlo := a, match_quality := q\<rparr>)))
      = Inr (db', hist', m')"
    using x2 by (simp only: bt sum.case prod.case)
  obtain a q where mm: "match_metrics M w ot = Inr (a, q)"
  proof (cases "match_metrics M w ot")
    case (Inl e)
    with x3 show ?thesis by simp
  next
    case (Inr r)
    then show ?thesis using that by (cases r) simp
  qed
  have x4: "(case write_back_team M (time m) (concat (rate M [w, ot])) db2 of
                            Inl e \<Rightarrow> Inl e
                          | Inr db3 \<Rightarrow>
                              Inr (db3, hist @ [m\<lparr>avg_dlo := a, match_quality := q\<rparr>],
                                   m\<lparr>avg_dlo := a, match_quality := q\<rparr>))
      = Inr (db', hist', m')"
    using x3 by (simp only: mm sum.case prod.case)
  have wb: "write_back_team M (time m) (concat (rate M [w, ot])) db2 = Inr db'"
    and m': "m' = m\<lparr>avg_dlo := a, match_quality := q\<rparr>"
    and h': "hist' = hist @ [m']"
  proof -
    show "write_back_team M (time m) (concat (rate M [w, ot])) db2 = Inr db'"
      using x4 by (cases "write_back_team M (time m) (concat (rate M [w, ot])) db2") simp_all
    show m': "m' = m\<lparr>avg_dlo := a, match_quality := q\<rparr>"
      using x4 by (cases "write_back_team M (time m) (concat (rate M [w, ot])) db2") simp_all
    show "hist' = hist @ [m']"
      using x4 m'
      by (cases "write_back_team M (time m) (concat (rate M [w, ot])) db2") simp_all
  qed
  from m' have aq: "a = avg_dlo m'" "q = match_quality m'" by simp_all
  note t = teams_loop_result [OF tl]
  have p: "map player_id (concat (map snd (teams m))) = participants m"
    by (simp add: participants_def)
  show ?thesis
  proof (rule that [of db1 db2 w ot])
    show "\<forall>k. current_rating M db1 k = current_rating M db k" using t by blast
    show "\<forall>k. games_of db1 k = games_of db k + int (count_list (participants m) k)"
      using t p by simp
    show "\<forall>k. history_of db1 k = history_of db k" using t by blast
    show "dom db1 = dom db \<union> set (participants m)" using t p by simp
    show "append_history M (time m)
       (beliefs M db (winner_roster m) @ beliefs M db (other_roster m)) db1 = Inr db2"
      by (rule ah)
    show "balance_teams M (beliefs M db (winner_roster m)) (beliefs M db (other_roster m))
       = Inr (w, ot)" by (rule bt)
    show "match_metrics M w ot = Inr (avg_dlo m', match_quality m')"
      using mm aq by simp
    show "write_back_team M (time m) (concat (rate M [w, ot])) db2 = Inr db'" by (rule wb)
    show "m' = m\<lparr>avg_dlo := avg_dlo m', match_quality := match_quality m'\<rparr>"
      using m' aq by simp
    show "hist' = hist @ [m']" by (rule h')
  qed
qed

text \<open>
  What one accepted two-team match does to the counters: every roster entry adds one game and
  one history entry to its player, and the database keeps its beliefs under their names.
\<close>

lemma process_two_team_counts:
  assumes "two_team_match m" and "names_ok db"
      and "process_match_result M m hist db = Inr (db', hist', m')"
  shows "names_ok db'"
    and "games_of db' k = games_of db k + int (count_list (participants m) k)"
    and "length (history_of db' k) = length (history_of db k) + count_list (participants m) k"
    and "dom db' = dom db \<union> set (participants m)"
proof -
  from assms(1) assms(3) obtain db1 db2 w ot where
    cr: "\<forall>k. current_rating M db1 k = current_rating M db k"
    and g1: "\<forall>k. games_of db1 k = games_of db k + int (count_list (participants m) k)"
    and h1: "\<forall>k. history_of db1 k = history_of db k"
    and d1: "dom db1 = dom db \<union> set (participants m)"
    and ah: "append_history M (time m)
       (beliefs M db (winner_roster m) @ beliefs M db (other_roster m)) db1 = Inr db2"
    and bt: "balance_teams M (beliefs M db (winner_roster m)) (beliefs M db (other_roster m))
       = Inr (w, ot)"
    and mm: "match_metrics M w ot = Inr (avg_dlo m', match_quality m')"
    and wb: "write_back_team M (time m) (concat (rate M [w, ot])) db2 = Inr db'"
    and m': "m' = m\<lparr>avg_dlo := avg_dlo m', match_quality := match_quality m'\<rparr>"
    and h': "hist' = hist @ [m']"
    by (rule process_two_team_phases)
  note a = append_history_result [OF ah]
  note b = write_back_team_result [OF wb]
  have n1: "names_ok db1" using assms(2) cr by (rule names_ok_from_current_rating)
  have n2: "names_ok db2" using n1 a by (blast intro: names_ok_from_current_rating)
  show "names_ok db'" using n2 b by blast
  show "games_of db' k = games_of db k + int (count_list (participants m) k)"
    using a b g1 by simp
  have nm: "map name (beliefs M db (winner_roster m) @ beliefs M db (other_roster m))
              = map player_id (winner_roster m @ other_roster m)"
    using assms(2) by (simp add: names_of_beliefs)
  have "length (history_of db2 k)
          = length (history_of db1 k)
            + count_list (map player_id (winner_roster m @ other_roster m)) k"
    using a nm by metis
  then show "length (history_of db' k)
               = length (history_of db k) + count_list (participants m) k"
    using b h1 two_team_participants(1) [OF assms(1)] by simp
  show "dom db' = dom db \<union> set (participants m)"
    using a b d1 by simp
qed
lemma rate_keeps_names_concat:
  assumes "rate_keeps_names M"
  shows "map name (concat (rate M ts)) = map name (concat ts)"
proof -
  have "map name (concat (rate M ts)) = concat (map (map name) (rate M ts))"
    by (simp add: map_concat)
  also have "\<dots> = concat (map (map name) ts)"
    using assms by (simp add: rate_keeps_names_def)
  also have "\<dots> = map name (concat ts)" by (simp add: map_concat)
  finally show ?thesis .
qed

lemma balanced_names:
  assumes "balance_teams M wt ot = Inr (w, padded_other)"
  shows "set (map name wt) \<union> set (map name ot) \<subseteq> set (map name (w @ padded_other))"
    and "set (map name (w @ padded_other))
           \<subseteq> set (map name wt) \<union> set (map name ot) \<union> {''TEST_PLAYER''}"
proof -
  note r = balance_teams_result [OF assms]
  show "set (map name wt) \<union> set (map name ot) \<subseteq> set (map name (w @ padded_other))"
    by (subst r(1), subst r(2)) auto
  show "set (map name (w @ padded_other))
           \<subseteq> set (map name wt) \<union> set (map name ot) \<union> {''TEST_PLAYER''}"
    by (subst r(1), subst r(2)) (auto simp: rating_def)
qed

text \<open>
  \<^verbatim>\<open>process_match_result\<close> returns on every well-formed match, from a database that keeps
  its beliefs under their names and with a rating service that returns the names it was given.
\<close>

lemma process_match_result_total:
  assumes "well_formed_match m" and "names_ok db" and "rate_keeps_names M"
  shows "\<exists>db' hist' m'. process_match_result M m hist db = Inr (db', hist', m')"
proof -
  from assms(1) have tt: "two_team_match m"
    and wne: "winner_roster m \<noteq> []" and one: "other_roster m \<noteq> []"
    and fac: "\<forall>p \<in> set (concat (map snd (teams m))). faction p = ''ANS'' \<or> faction p = ''OSP''"
    by (simp_all add: well_formed_match_def list_all_iff)
  let ?bw = "beliefs M db (winner_roster m)" and ?bo = "beliefs M db (other_roster m)"
  from teams_loop_total [OF fac, of M "winning_team m" db "[]"]
  obtain db1 upd where tl: "teams_loop M (winning_team m) (teams m) db [] = Inr (db1, upd)"
    by auto
  note t = teams_loop_result [OF tl]
  have p: "map player_id (concat (map snd (teams m))) = participants m"
    by (simp add: participants_def)
  have nm: "map name (?bw @ ?bo) = map player_id (winner_roster m @ other_roster m)"
    using assms(2) by (simp add: names_of_beliefs)
  have ids: "set (map player_id (winner_roster m @ other_roster m)) = set (participants m)"
    using two_team_participants(2) [OF tt] by simp
  have d1: "dom db1 = dom db \<union> set (participants m)" using t p by simp
  have "set (map name (?bw @ ?bo)) \<subseteq> dom db1"
    by (simp only: nm ids d1) blast
  from append_history_total [OF this, where M = M and t = "time m"]
  obtain db2 where ah: "append_history M (time m) (?bw @ ?bo) db1 = Inr db2" by blast
  note a = append_history_result [OF ah]
  have "length ?bw < length ?bo \<longrightarrow> ?bw \<noteq> []" "length ?bo < length ?bw \<longrightarrow> ?bo \<noteq> []"
    using wne one by (simp_all add: beliefs_def)
  from balance_teams_total [OF this, of M]
  obtain w ot where bt: "balance_teams M ?bw ?bo = Inr (w, ot)" by auto
  note b = balance_teams_result [OF bt]
  have "w \<noteq> []" using wne by (subst b(1)) (simp add: beliefs_def)
  then have "w @ ot \<noteq> []" by simp
  from match_metrics_total [OF this, of M]
  obtain a q where mm: "match_metrics M w ot = Inr (a, q)" by auto
  have hist_pos: "\<forall>r \<in> set (concat (rate M [w, ot])).
                    name r \<noteq> ''TEST_PLAYER'' \<longrightarrow> history_of db2 (name r) \<noteq> []"
  proof (intro ballI impI)
    fix r
    assume r: "r \<in> set (concat (rate M [w, ot]))" and nt: "name r \<noteq> ''TEST_PLAYER''"
    from r have "name r \<in> set (map name (concat (rate M [w, ot])))" by force
    then have "name r \<in> set (map name (w @ ot))"
      by (simp add: rate_keeps_names_concat [OF assms(3)])
    with balanced_names(2) [OF bt] nt have "name r \<in> set (map name (?bw @ ?bo))"
      by auto
    then have "0 < count_list (map name (?bw @ ?bo)) (name r)"
      using count_list_0_iff [of "map name (?bw @ ?bo)" "name r"] by simp
    moreover have "length (history_of db2 (name r))
                     = length (history_of db1 (name r))
                       + count_list (map name (?bw @ ?bo)) (name r)"
      using a by blast
    ultimately show "history_of db2 (name r) \<noteq> []" by auto
  qed
  from write_back_team_total [OF hist_pos, where M = M and t = "time m"]
  obtain db3 where wb: "write_back_team M (time m) (concat (rate M [w, ot])) db2 = Inr db3"
    by blast
  show ?thesis
    by (simp add: process_match_result_two_team [OF tt] tl ah bt mm wb)
qed

lemma process_matches_counts:
  assumes "\<forall>m \<in> set ms. two_team_match m" and "names_ok db"
      and "process_matches M ms hist db = Inr (db', hist')"
  shows "names_ok db'
         \<and> (\<forall>k. games_of db' k = games_of db k + int (appearances ms k))
         \<and> (\<forall>k. length (history_of db' k) = length (history_of db k) + appearances ms k)"
  using assms
proof (induction ms arbitrary: db hist)
  case Nil
  then show ?case by (simp add: appearances_def)
next
  case (Cons m ms)
  from Cons.prems(3) obtain db1 hist1 m1 where
    one: "process_match_result M m hist db = Inr (db1, hist1, m1)"
    and rest: "process_matches M ms hist1 db1 = Inr (db', hist')"
    by (auto split: sum.splits)
  from Cons.prems(1) have tt: "two_team_match m" and tts: "\<forall>m \<in> set ms. two_team_match m"
    by simp_all
  note c = process_two_team_counts [OF tt Cons.prems(2) one]
  note ih = Cons.IH [OF tts c(1) rest]
  have "\<forall>k. games_of db' k = games_of db k + int (appearances (m # ms) k)"
    using ih c(2) by (simp add: appearances_def)
  moreover have "\<forall>k. length (history_of db' k)
                       = length (history_of db k) + appearances (m # ms) k"
    using ih c(3) by (simp add: appearances_def)
  ultimately show ?case using ih by blast
qed

lemma process_matches_total:
  assumes "\<forall>m \<in> set ms. well_formed_match m" and "names_ok db" and "rate_keeps_names M"
  shows "\<exists>db' hist'. process_matches M ms hist db = Inr (db', hist')"
  using assms(1,2)
proof (induction ms arbitrary: db hist)
  case Nil
  then show ?case by simp
next
  case (Cons m ms)
  from Cons.prems(1) have wf: "well_formed_match m" and wfs: "\<forall>m \<in> set ms. well_formed_match m"
    by simp_all
  from process_match_result_total [OF wf Cons.prems(2) assms(3), of hist]
  obtain db1 hist1 m1 where one: "process_match_result M m hist db = Inr (db1, hist1, m1)"
    by blast
  from wf have tt: "two_team_match m" by (simp add: well_formed_match_def)
  note c = process_two_team_counts [OF tt Cons.prems(2) one]
  from Cons.IH [OF wfs c(1), of hist1] one show ?case by simp
qed

lemma count_list_distinct: "distinct xs \<Longrightarrow> count_list xs k = (if k \<in> set xs then 1 else 0)"
  by (induction xs) auto

lemma appearances_distinct:
  "\<forall>m \<in> set ms. distinct (participants m) \<Longrightarrow> appearances ms k = matches_with ms k"
  by (induction ms) (simp_all add: appearances_def matches_with_def count_list_distinct)

lemma names_ok_empty: "names_ok Map.empty"
  by (simp add: names_ok_def)

text \<open>The adjustment applier keeps every belief under its name, too.\<close>

lemma apply_manual_adjustments_names_ok:
  "names_ok db \<Longrightarrow> names_ok (apply_manual_adjustments M db adjs)"
proof (induction adjs arbitrary: db)
  case Nil
  then show ?case by simp
next
  case (Cons adj adjs)
  show ?case
  proof (cases "db (steam_id adj)")
    case None
    with Cons show ?thesis by simp
  next
    case (Some d)
    define db1 where
      "db1 = db(steam_id adj \<mapsto>
                d\<lparr>rating_data := rating M (name (rating_data d))
                                   (Some (mu (rating_data d) + mu_adjustment adj))
                                   (Some (sigma (rating_data d)))\<rparr>)"
    from Cons.prems Some have n1: "names_ok db1"
      by (auto simp: names_ok_def db1_def rating_def)
    have eq: "apply_manual_adjustments M db (adj # adjs) = apply_manual_adjustments M db1 adjs"
      using Some by (simp add: db1_def Let_def)
    from Cons.IH [OF n1] show ?thesis by (simp only: eq)
  qed
qed

text \<open>
  What a run of \<^verbatim>\<open>process_match_result\<close> that returns on a valid two-team match has
  done with the collected belief lists: the lists it balanced and gave to \<^verbatim>\<open>predict_draw\<close>
  and \<^verbatim>\<open>rate\<close>, and the metrics it stored on the record.
\<close>

lemma padded_lists_of_run:
  assumes "two_team_match m"
      and "process_match_result M m hist db = Inr (db', hist', m')"
  shows "\<exists>w ot db2.
           balance_teams M (beliefs M db (winner_roster m)) (beliefs M db (other_roster m))
             = Inr (w, ot)
         \<and> w = beliefs M db (winner_roster m)
               @ replicate (length (other_roster m) - length (winner_roster m))
                   (rating M ''TEST_PLAYER''
                      (Some (sum_list (map mu (beliefs M db (winner_roster m)))
                             / real (length (winner_roster m))))
                      (Some (sum_list (map sigma (beliefs M db (winner_roster m)))
                             / real (length (winner_roster m)))))
         \<and> ot = beliefs M db (other_roster m)
                @ replicate (length (winner_roster m) - length (other_roster m))
                    (rating M ''TEST_PLAYER''
                       (Some (sum_list (map mu (beliefs M db (other_roster m)))
                              / real (length (other_roster m))))
                       (Some (sum_list (map sigma (beliefs M db (other_roster m)))
                              / real (length (other_roster m)))))
         \<and> length w = length ot
         \<and> (length (winner_roster m) = length (other_roster m)
              \<longrightarrow> w = beliefs M db (winner_roster m) \<and> ot = beliefs M db (other_roster m))
         \<and> match_quality m' = predict_draw M [w, ot]
         \<and> write_back M (time m) (rate M [w, ot]) db2 = Inr db'"
proof -
  let ?bw = "beliefs M db (winner_roster m)" and ?bo = "beliefs M db (other_roster m)"
  from assms obtain db1 db2 w ot where
    cr: "\<forall>k. current_rating M db1 k = current_rating M db k"
    and g1: "\<forall>k. games_of db1 k = games_of db k + int (count_list (participants m) k)"
    and h1: "\<forall>k. history_of db1 k = history_of db k"
    and d1: "dom db1 = dom db \<union> set (participants m)"
    and ah: "append_history M (time m) (?bw @ ?bo) db1 = Inr db2"
    and bt: "balance_teams M ?bw ?bo = Inr (w, ot)"
    and mm: "match_metrics M w ot = Inr (avg_dlo m', match_quality m')"
    and wb: "write_back_team M (time m) (concat (rate M [w, ot])) db2 = Inr db'"
    and m': "m' = m\<lparr>avg_dlo := avg_dlo m', match_quality := match_quality m'\<rparr>"
    and h': "hist' = hist @ [m']"
    by (rule process_two_team_phases)
  note b = balance_teams_result [OF bt]
  have lw: "length ?bw = length (winner_roster m)" and lo: "length ?bo = length (other_roster m)"
    by (simp_all add: beliefs_def)
  have 1: "w = ?bw @ replicate (length (other_roster m) - length (winner_roster m))
                   (rating M ''TEST_PLAYER''
                      (Some (sum_list (map mu ?bw) / real (length (winner_roster m))))
                      (Some (sum_list (map sigma ?bw) / real (length (winner_roster m)))))"
    using b(1) by (simp only: lw lo)
  have 2: "ot = ?bo @ replicate (length (winner_roster m) - length (other_roster m))
                    (rating M ''TEST_PLAYER''
                       (Some (sum_list (map mu ?bo) / real (length (other_roster m))))
                       (Some (sum_list (map sigma ?bo) / real (length (other_roster m)))))"
    using b(2) by (simp only: lw lo)
  have 3: "length (winner_roster m) = length (other_roster m) \<longrightarrow> w = ?bw \<and> ot = ?bo"
    using 1 2 by simp
  have 4: "match_quality m' = predict_draw M [w, ot]"
    using match_metrics_result(2) [OF mm] .
  have 5: "write_back M (time m) (rate M [w, ot]) db2 = Inr db'"
    using wb by (simp only: write_back_concat)
  from bt 1 2 b(3) 3 4 5 show ?thesis by blast
qed

lemma metrics_of_run:
  assumes "two_team_match m"
      and "process_match_result M m hist db = Inr (db', hist', m')"
  shows "\<exists>w ot.
           balance_teams M (beliefs M db (winner_roster m)) (beliefs M db (other_roster m))
             = Inr (w, ot)
         \<and> length w = length ot
         \<and> avg_dlo m'
             = sum_list (map mu (w @ ot)) / real (length (w @ ot))
               - 3 * (sum_list (map sigma (w @ ot)) / real (length (w @ ot)))
         \<and> match_quality m' = predict_draw M [w, ot]
         \<and> m' = m\<lparr>avg_dlo := avg_dlo m', match_quality := match_quality m'\<rparr>
         \<and> hist' = hist @ [m']"
proof -
  let ?bw = "beliefs M db (winner_roster m)" and ?bo = "beliefs M db (other_roster m)"
  from assms obtain db1 db2 w ot where
    cr: "\<forall>k. current_rating M db1 k = current_rating M db k"
    and g1: "\<forall>k. games_of db1 k = games_of db k + int (count_list (participants m) k)"
    and h1: "\<forall>k. history_of db1 k = history_of db k"
    and d1: "dom db1 = dom db \<union> set (participants m)"
    and ah: "append_history M (time m) (?bw @ ?bo) db1 = Inr db2"
    and bt: "balance_teams M ?bw ?bo = Inr (w, ot)"
    and mm: "match_metrics M w ot = Inr (avg_dlo m', match_quality m')"
    and wb: "write_back_team M (time m) (concat (rate M [w, ot])) db2 = Inr db'"
    and m': "m' = m\<lparr>avg_dlo := avg_dlo m', match_quality := match_quality m'\<rparr>"
    and h': "hist' = hist @ [m']"
    by (rule process_two_team_phases)
  note b = balance_teams_result [OF bt]
  note r = match_metrics_result [OF mm]
  from bt b(3) r(1) r(2) m' h' show ?thesis by blast
qed

text \<open>
  The balancing and the metrics as equations, where they raise nothing: a shorter list has a
  member to take the mean of, and the pooled lists are not both empty.
\<close>

lemma balance_teams_padded:
  assumes "length wt < length ot \<longrightarrow> wt \<noteq> []" and "length ot < length wt \<longrightarrow> ot \<noteq> []"
  shows "balance_teams M wt ot
           = Inr (wt @ replicate (length ot - length wt)
                          (rating M ''TEST_PLAYER''
                             (Some (sum_list (map mu wt) / real (length wt)))
                             (Some (sum_list (map sigma wt) / real (length wt)))),
                  ot @ replicate (length wt - length ot)
                          (rating M ''TEST_PLAYER''
                             (Some (sum_list (map mu ot) / real (length ot)))
                             (Some (sum_list (map sigma ot) / real (length ot)))))"
proof -
  from balance_teams_total [OF assms, of M] obtain w po where
    bt: "balance_teams M wt ot = Inr (w, po)" by auto
  from balance_teams_result(1) [OF bt] balance_teams_result(2) [OF bt] bt
  show ?thesis by simp
qed

lemma match_metrics_value:
  assumes "wt @ ot \<noteq> []"
  shows "match_metrics M wt ot
           = Inr (sum_list (map mu (wt @ ot)) / real (length (wt @ ot))
                    - 3 * (sum_list (map sigma (wt @ ot)) / real (length (wt @ ot))),
                  predict_draw M [wt, ot])"
  using assms by (auto simp: match_metrics_def average_def)

lemmas example_defs =
  example_report_def example_teams_def example_team_def example_player_def
  alice_element_def bob_element_def carol_element_def alice_def bob_def carol_def
  example_match_def

lemmas parser_defs =
  parse_battle_report_def basic_params_invalid_def find_xml_def findall_def select_step_def
  element_int_def py_int_def strip_def is_space_def digits_def is_digit_def digit_val_def
  element_bool_def parse_team_def escaped_text_def html_escape_def replace_char_def
  update_team_faction_def is_player_ANS_def is_player_OSP_def all_in_def player_hullkeys_def
  ANS_HULLKEYS_def OSP_HULLKEYS_def invalid_match_def

section \<open>Claims about rejection and the parser\<close>

text \<open>
  Claim C1. A match record with \<^verbatim>\<open>valid=False\<close>, or whose winning team id is not a key
  of its teams, is rejected without any mutation: \<^verbatim>\<open>process_match_result\<close> returns
  normally, and the database, the match history and the record itself (so also its
  \<^verbatim>\<open>avg_dlo\<close> and \<^verbatim>\<open>match_quality\<close>) are what they were.
\<close>

theorem rejected_match_no_mutation:
  "\<not> valid match_data \<or> winning_team match_data \<notin> fst ` set (teams match_data) \<Longrightarrow>
     process_match_result model match_data match_history database
       = Inr (database, match_history, match_data)"
  by (auto simp: process_match_result_def)

text \<open>
  Both ways of rejection on concrete records: the invalid record the parser returns, and a
  valid record whose winner \<^verbatim>\<open>TeamC\<close> is not among its teams.
\<close>

theorem rejected_match_no_mutation_witness:
  "\<not> valid (invalid_match 5)
   \<and> process_match_result example_model (invalid_match 5) [example_match] Map.empty
       = Inr (Map.empty, [example_match], invalid_match 5)
   \<and> winning_team (example_match\<lparr>winning_team := Some ''TeamC''\<rparr>)
       \<notin> fst ` set (teams (example_match\<lparr>winning_team := Some ''TeamC''\<rparr>))
   \<and> process_match_result example_model (example_match\<lparr>winning_team := Some ''TeamC''\<rparr>)
         [] Map.empty
       = Inr (Map.empty, [], example_match\<lparr>winning_team := Some ''TeamC''\<rparr>)"
proof -
  have h1: "\<not> valid (invalid_match 5)" by (simp add: invalid_match_def)
  have h2: "winning_team (example_match\<lparr>winning_team := Some ''TeamC''\<rparr>)
              \<notin> fst ` set (teams (example_match\<lparr>winning_team := Some ''TeamC''\<rparr>))"
    by (simp add: example_match_def)
  show ?thesis
    using h1 h2
      rejected_match_no_mutation [of "invalid_match 5" example_model "[example_match]" Map.empty]
      rejected_match_no_mutation [of "example_match\<lparr>winning_team := Some ''TeamC''\<rparr>"
                                     example_model "[]" Map.empty]
    by simp
qed

text \<open>
  Claim C6 says that a duration of exactly 200 or exactly 7000 is rejected. The check of line
  101 is \<^verbatim>\<open>> 7000\<close> and \<^verbatim>\<open>< 200\<close>: with either duration the example report is parsed
  into a record with \<^verbatim>\<open>valid=True\<close>.
\<close>

theorem duration_bounds_counterexample:
  "parse_battle_report 5 (example_report ''1'' ''200'' ''true'' ''TeamA'' example_teams)
     = Inr example_match
   \<and> parse_battle_report 5 (example_report ''1'' ''7000'' ''true'' ''TeamA'' example_teams)
     = Inr example_match
   \<and> valid example_match"
  by (simp add: parser_defs example_defs)

text \<open>
  Claim C6, as the code has it. For a report whose start timestamp and duration read as
  integers: a duration below 200 or above 7000 yields the invalid record, which
  \<^verbatim>\<open>process_match_result\<close> then rejects with no mutation of database or history; and a
  duration from 200 to 7000, both included, with a nonzero start and a finished text that
  counts as true, never yields a record with \<^verbatim>\<open>valid=False\<close>.
\<close>

theorem duration_bounds:
  assumes "element_int (find_xml [''GameStartTimestamp''] doc) = Inr start"
      and "element_int (find_xml [''GameDuration''] doc) = Inr duration"
  shows "(duration < 200 \<or> duration > 7000 \<longrightarrow>
            parse_battle_report t doc = Inr (invalid_match t)
            \<and> \<not> valid (invalid_match t)
            \<and> process_match_result model (invalid_match t) match_history database
                = Inr (database, match_history, invalid_match t))
         \<and> (start \<noteq> 0 \<and> 200 \<le> duration \<and> duration \<le> 7000
              \<and> element_bool (find_xml [''GameFinished''] doc) = Inr True \<longrightarrow>
            (\<forall>m. parse_battle_report t doc = Inr m \<longrightarrow> valid m))"
proof (intro conjI impI)
  assume d: "duration < 200 \<or> duration > 7000"
  with assms have "basic_params_invalid doc = Inr True"
    by (auto simp: basic_params_invalid_def)
  then show "parse_battle_report t doc = Inr (invalid_match t)"
    by (simp add: parse_battle_report_def)
  show "\<not> valid (invalid_match t)" by (simp add: invalid_match_def)
  then show "process_match_result model (invalid_match t) match_history database
               = Inr (database, match_history, invalid_match t)"
    by (simp add: process_match_result_def)
next
  assume "start \<noteq> 0 \<and> 200 \<le> duration \<and> duration \<le> 7000
            \<and> element_bool (find_xml [''GameFinished''] doc) = Inr True"
  with assms have "basic_params_invalid doc = Inr False"
    by (auto simp: basic_params_invalid_def)
  then show "\<forall>m. parse_battle_report t doc = Inr m \<longrightarrow> valid m"
    by (auto simp: parse_battle_report_def split: sum.splits)
qed

text \<open>
  The bounds on concrete reports: duration 100 gives the invalid record and no mutation,
  duration 200 gives a record with \<^verbatim>\<open>valid=True\<close>.
\<close>

theorem duration_bounds_witness:
  "element_int (find_xml [''GameStartTimestamp'']
      (example_report ''1'' ''100'' ''true'' ''TeamA'' example_teams)) = Inr 1
   \<and> element_int (find_xml [''GameDuration'']
      (example_report ''1'' ''100'' ''true'' ''TeamA'' example_teams)) = Inr 100
   \<and> parse_battle_report 5 (example_report ''1'' ''100'' ''true'' ''TeamA'' example_teams)
       = Inr (invalid_match 5)
   \<and> process_match_result example_model (invalid_match 5) [] Map.empty
       = Inr (Map.empty, [], invalid_match 5)
   \<and> element_int (find_xml [''GameDuration'']
      (example_report ''1'' ''200'' ''true'' ''TeamA'' example_teams)) = Inr 200
   \<and> element_bool (find_xml [''GameFinished'']
      (example_report ''1'' ''200'' ''true'' ''TeamA'' example_teams)) = Inr True
   \<and> parse_battle_report 5 (example_report ''1'' ''200'' ''true'' ''TeamA'' example_teams)
       = Inr example_match
   \<and> valid example_match"
proof -
  let ?low = "example_report ''1'' ''100'' ''true'' ''TeamA'' example_teams"
  let ?edge = "example_report ''1'' ''200'' ''true'' ''TeamA'' example_teams"
  have s1: "element_int (find_xml [''GameStartTimestamp''] ?low) = Inr 1"
    by (simp add: parser_defs example_defs)
  have d1: "element_int (find_xml [''GameDuration''] ?low) = Inr 100"
    by (simp add: parser_defs example_defs)
  have s2: "element_int (find_xml [''GameStartTimestamp''] ?edge) = Inr 1"
    by (simp add: parser_defs example_defs)
  have d2: "element_int (find_xml [''GameDuration''] ?edge) = Inr 200"
    by (simp add: parser_defs example_defs)
  have f2: "element_bool (find_xml [''GameFinished''] ?edge) = Inr True"
    by (simp add: parser_defs example_defs)
  have p2: "parse_battle_report 5 ?edge = Inr example_match"
    by (simp add: parser_defs example_defs)
  have v: "valid example_match"
    using f2 p2 duration_bounds [OF s2 d2, of 5 example_model "[]" Map.empty] by simp
  show ?thesis
    using s1 d1 d2 f2 p2 v
      duration_bounds [OF s1 d1, of 5 example_model "[]" Map.empty]
    by simp
qed

text \<open>
  Claim C7 says that a report whose finished flag is false yields \<^verbatim>\<open>valid=False\<close>. The
  code tests \<^verbatim>\<open>not bool(text)\<close> on the text of the flag, and the text \<^verbatim>\<open>false\<close> is a
  non-empty string, which counts as true: the report below, with a nonzero start, a duration
  within the bounds and the flag \<^verbatim>\<open>false\<close>, is returned with \<^verbatim>\<open>valid=True\<close>.
\<close>

theorem finished_false_accepted:
  "parse_battle_report 5 (example_report ''1'' ''1000'' ''false'' ''TeamA'' example_teams)
     = Inr example_match
   \<and> valid example_match"
  by (simp add: parser_defs example_defs)

text \<open>
  Claim C8 says that a team marked \<^verbatim>\<open>ANS\<close> is overwritten to \<^verbatim>\<open>OSP\<close> by a later player
  who resolves to \<^verbatim>\<open>OSP\<close>. The guard of line 134 is \<^verbatim>\<open>team_faction != 'ANS'\<close>: a team
  whose first player fielded an ANS hull and whose second player fielded only OSP hulls is
  \<^verbatim>\<open>ANS\<close>, for both players.
\<close>

theorem ans_not_overwritten_counterexample:
  "is_player_ANS alice_element \<and> is_player_OSP bob_element
   \<and> update_team_faction ''ANS'' bob_element = ''ANS''
   \<and> parse_team (example_team ''TeamA'' [alice_element, bob_element])
       = Inr (Some ''TeamA'', [alice, bob\<lparr>faction := ''ANS''\<rparr>])"
  by (simp add: parser_defs example_defs)

text \<open>
  Claim C8, as the code has it. A team marked \<^verbatim>\<open>OSP\<close> stays \<^verbatim>\<open>OSP\<close> and a team marked
  \<^verbatim>\<open>ANS\<close> stays \<^verbatim>\<open>ANS\<close>, whatever a later player fielded; an unmarked team takes the
  faction of a player whose fielded hulls all lie in one faction's list, with at least one
  hull fielded, and stays unmarked otherwise. So after the loop over the players the team
  faction is that of the first player who resolves, and empty when none does.
\<close>

theorem team_faction_first_resolution:
  "update_team_faction ''OSP'' pe = ''OSP''
   \<and> update_team_faction ''ANS'' pe = ''ANS''
   \<and> update_team_faction '''' pe =
       (if is_player_ANS pe then ''ANS'' else if is_player_OSP pe then ''OSP'' else '''')
   \<and> (parse_players pes '''' [] = Inr (tf, entries) \<longrightarrow>
        tf = (case List.find (\<lambda>pe. is_player_ANS pe \<or> is_player_OSP pe) pes of
                None \<Rightarrow> ''''
              | Some pe \<Rightarrow> if is_player_ANS pe then ''ANS'' else ''OSP''))"
  using parse_players_result [of pes "''''" "[]" tf entries]
  by (simp add: update_team_faction_sticky update_team_faction_unmarked foldl_faction_first)

text \<open>
  Three players in order: one with no hulls, one with OSP hulls, one with an ANS hull. The
  team is \<^verbatim>\<open>OSP\<close>.
\<close>

theorem team_faction_first_resolution_witness:
  "parse_players [carol_element, bob_element, alice_element] '''' []
     = Inr (''OSP'', [(''1003'', ''carol''), (''1002'', ''bob''), (''1001'', ''alice'')])
   \<and> ''OSP'' = (case List.find (\<lambda>pe. is_player_ANS pe \<or> is_player_OSP pe)
                       [carol_element, bob_element, alice_element] of
                 None \<Rightarrow> ''''
               | Some pe \<Rightarrow> if is_player_ANS pe then ''ANS'' else ''OSP'')"
proof -
  have h: "parse_players [carol_element, bob_element, alice_element] '''' []
     = Inr (''OSP'', [(''1003'', ''carol''), (''1002'', ''bob''), (''1001'', ''alice'')])"
    by (simp add: parser_defs example_defs)
  show ?thesis
    using h team_faction_first_resolution
      [of carol_element "[carol_element, bob_element, alice_element]" "''OSP''"
          "[(''1003'', ''carol''), (''1002'', ''bob''), (''1001'', ''alice'')]"]
    by simp
qed

text \<open>
  Claim C10 says that a report that passes the basic checks and has a team in which no
  player resolves to a faction makes the parser raise. The assertion of lines 147-148 runs
  over the players of the team: a team without players passes it, and the report below is
  returned with \<^verbatim>\<open>valid=True\<close> and an empty roster for \<^verbatim>\<open>TeamB\<close>.
\<close>

theorem empty_team_counterexample:
  "basic_params_invalid
     (example_report ''1'' ''1000'' ''true'' ''TeamA''
        [example_team ''TeamA'' [alice_element], example_team ''TeamB'' []]) = Inr False
   \<and> player_elements (example_team ''TeamB'' []) = []
   \<and> parse_battle_report 5
       (example_report ''1'' ''1000'' ''true'' ''TeamA''
          [example_team ''TeamA'' [alice_element], example_team ''TeamB'' []])
     = Inr (example_match\<lparr>teams := [(Some ''TeamA'', [alice]), (Some ''TeamB'', [])]\<rparr>)"
  by (simp add: parser_defs example_defs player_elements_def)

text \<open>
  Claim C10, as the code has it. If a report passes the basic checks and has a team with at
  least one player in which no player resolves to \<^verbatim>\<open>ANS\<close> or \<^verbatim>\<open>OSP\<close>, the parser
  returns no record: it raises, an assertion failure or the attribute error of an escape call
  on a missing text, and an assertion failure when every player of every team has the texts
  the escape calls read. And every participant of a record returned with \<^verbatim>\<open>valid=True\<close>
  has the faction \<^verbatim>\<open>ANS\<close> or \<^verbatim>\<open>OSP\<close>.
\<close>

theorem unresolved_team_raises:
  "(basic_params_invalid doc = Inr False
      \<and> te \<in> set (findall [''.'', ''Teams'', ''*''] doc)
      \<and> player_elements te \<noteq> []
      \<and> (\<forall>pe \<in> set (player_elements te). \<not> is_player_ANS pe \<and> \<not> is_player_OSP pe)
    \<longrightarrow> (parse_battle_report t doc = Inl AssertionError
          \<or> parse_battle_report t doc = Inl AttributeError)
        \<and> ((\<forall>te' \<in> set (findall [''.'', ''Teams'', ''*''] doc).
               \<forall>pe \<in> set (player_elements te'). texts_present pe)
             \<longrightarrow> parse_battle_report t doc = Inl AssertionError))
   \<and> (\<forall>m tid ps p. parse_battle_report t doc = Inr m \<and> valid m
          \<and> (tid, ps) \<in> set (teams m) \<and> p \<in> set ps
        \<longrightarrow> faction p = ''ANS'' \<or> faction p = ''OSP'')"
proof (intro conjI impI allI)
  assume a: "basic_params_invalid doc = Inr False
      \<and> te \<in> set (findall [''.'', ''Teams'', ''*''] doc)
      \<and> player_elements te \<noteq> []
      \<and> (\<forall>pe \<in> set (player_elements te). \<not> is_player_ANS pe \<and> \<not> is_player_OSP pe)"
  let ?tes = "findall [''.'', ''Teams'', ''*''] doc"
  from a obtain e where "parse_team te = Inl e"
    using parse_team_unresolved by blast
  with a obtain e' where e': "parse_teams ?tes [] = Inl e'"
    using parse_teams_fails by blast
  then obtain te' where te': "te' \<in> set ?tes" "parse_team te' = Inl e'"
    using parse_teams_error by blast
  then have cases: "e' = AssertionError \<or> e' = AttributeError"
    using parse_team_error by blast
  from a e' have res: "parse_battle_report t doc = Inl e'"
    by (simp add: parse_battle_report_def)
  with cases show "parse_battle_report t doc = Inl AssertionError
          \<or> parse_battle_report t doc = Inl AttributeError" by auto
  assume "\<forall>te' \<in> set ?tes. \<forall>pe \<in> set (player_elements te'). texts_present pe"
  with te' have "e' \<noteq> AttributeError"
    using parse_team_texts_present by blast
  with cases res show "parse_battle_report t doc = Inl AssertionError" by simp
next
  fix m tid ps p
  assume b: "parse_battle_report t doc = Inr m \<and> valid m
          \<and> (tid, ps) \<in> set (teams m) \<and> p \<in> set ps"
  then obtain teams_data where
    td: "parse_teams (findall [''.'', ''Teams'', ''*''] doc) [] = Inr teams_data"
    and m: "teams m = teams_data"
    by (auto simp: parse_battle_report_def invalid_match_def split: sum.splits bool.splits)
  from parse_teams_factions [OF td] b m
  show "faction p = ''ANS'' \<or> faction p = ''OSP''" by fastforce
qed

text \<open>
  A report whose second team has one player with no hulls raises the assertion failure; the
  example report is returned, and its participants have a faction.
\<close>

theorem unresolved_team_raises_witness:
  "basic_params_invalid
     (example_report ''1'' ''1000'' ''true'' ''TeamA''
        [example_team ''TeamA'' [alice_element], example_team ''TeamB'' [carol_element]])
     = Inr False
   \<and> player_elements (example_team ''TeamB'' [carol_element]) = [carol_element]
   \<and> \<not> is_player_ANS carol_element \<and> \<not> is_player_OSP carol_element
   \<and> texts_present alice_element \<and> texts_present carol_element
   \<and> parse_battle_report 5
       (example_report ''1'' ''1000'' ''true'' ''TeamA''
          [example_team ''TeamA'' [alice_element], example_team ''TeamB'' [carol_element]])
     = Inl AssertionError
   \<and> parse_battle_report 5 (example_report ''1'' ''1000'' ''true'' ''TeamA'' example_teams)
     = Inr example_match
   \<and> valid example_match
   \<and> (Some ''TeamB'', [bob]) \<in> set (teams example_match)
   \<and> (faction bob = ''ANS'' \<or> faction bob = ''OSP'')"
proof -
  let ?doc = "example_report ''1'' ''1000'' ''true'' ''TeamA''
        [example_team ''TeamA'' [alice_element], example_team ''TeamB'' [carol_element]]"
  let ?ok = "example_report ''1'' ''1000'' ''true'' ''TeamA'' example_teams"
  have h1: "basic_params_invalid ?doc = Inr False"
    by (simp add: parser_defs example_defs)
  have h2: "findall [''.'', ''Teams'', ''*''] ?doc
              = [example_team ''TeamA'' [alice_element], example_team ''TeamB'' [carol_element]]"
    by (simp add: parser_defs example_defs)
  have h3: "player_elements (example_team ''TeamB'' [carol_element]) = [carol_element]"
    by (simp add: parser_defs example_defs player_elements_def)
  have h3': "player_elements (example_team ''TeamA'' [alice_element]) = [alice_element]"
    by (simp add: parser_defs example_defs player_elements_def)
  have h4: "\<not> is_player_ANS carol_element \<and> \<not> is_player_OSP carol_element"
    by (simp add: parser_defs example_defs)
  have h5: "texts_present alice_element \<and> texts_present carol_element"
    by (simp add: texts_present_def parser_defs example_defs)
  have h6: "parse_battle_report 5 ?ok = Inr example_match"
    by (simp add: parser_defs example_defs)
  have h7: "valid example_match \<and> (Some ''TeamB'', [bob]) \<in> set (teams example_match)"
    by (simp add: example_match_def)
  have a: "parse_battle_report 5 ?doc = Inl AssertionError"
    using h1 h2 h3 h3' h4 h5
      unresolved_team_raises [of ?doc "example_team ''TeamB'' [carol_element]" 5]
    by simp
  have b: "faction bob = ''ANS'' \<or> faction bob = ''OSP''"
    using h6 h7 unresolved_team_raises [of ?ok "example_team ''TeamB'' [carol_element]" 5]
    by (meson list.set_intros(1))
  show ?thesis
    using h1 h3 h4 h5 h6 h7 a b by simp
qed

lemmas run_defs =
  process_match_result_def process_player_def new_player_def rating_def
  balance_teams_def pad_team_def average_def match_metrics_def beliefs_def current_rating_def
  example_model_def example_db_def example_data_def
  example_match_def uneven_match_def repeated_match_def three_team_match_def
  empty_team_match_def no_players_match_def alice_def bob_def carol_def
  result_player_def result_match_def winner_roster_def other_roster_def participants_def
  two_team_match_def well_formed_match_def Let_def

lemma rate_keeps_names_example: "rate_keeps_names example_model"
  by (simp add: rate_keeps_names_def example_model_def comp_def)

lemma names_ok_example_db: "names_ok example_db"
  by (simp add: names_ok_def example_db_def example_data_def)

section \<open>Claims about the match processor\<close>

text \<open>
  Claim C2. After \<^verbatim>\<open>process_match_result\<close> has returned on a valid two-team match, every
  participant whose id is not the reserved name \<^verbatim>\<open>TEST_PLAYER\<close> has a record whose belief
  is one that \<^verbatim>\<open>rate\<close> returned for the padded lists, under the participant's id, and the
  last entry of whose history is the match timestamp with the ordinal score of that belief.
  The placeholder was overwritten, not added to: the history has grown by one entry for each
  roster entry of the participant. The database is one that keeps beliefs under their names,
  as every database built by the program does, and \<^verbatim>\<open>rate\<close> returns the names it is given.
\<close>

theorem history_overwritten:
  assumes "two_team_match m" and "names_ok db" and "rate_keeps_names M"
      and "process_match_result M m hist db = Inr (db', hist', m')"
      and "p \<in> set (winner_roster m @ other_roster m)"
      and "player_id p \<noteq> ''TEST_PLAYER''"
  shows "\<exists>d w ot.
           db' (player_id p) = Some d
         \<and> balance_teams M (beliefs M db (winner_roster m)) (beliefs M db (other_roster m))
             = Inr (w, ot)
         \<and> rating_data d \<in> set (concat (rate M [w, ot]))
         \<and> name (rating_data d) = player_id p
         \<and> history d \<noteq> []
         \<and> last (history d) = (time m, ordinal M (rating_data d))
         \<and> length (history d)
             = length (history_of db (player_id p))
               + count_list (participants m) (player_id p)"
proof -
  let ?bw = "beliefs M db (winner_roster m)" and ?bo = "beliefs M db (other_roster m)"
  let ?k = "player_id p"
  from assms(1) assms(4) obtain db1 db2 w ot where
    cr: "\<forall>k. current_rating M db1 k = current_rating M db k"
    and g1: "\<forall>k. games_of db1 k = games_of db k + int (count_list (participants m) k)"
    and h1: "\<forall>k. history_of db1 k = history_of db k"
    and d1: "dom db1 = dom db \<union> set (participants m)"
    and ah: "append_history M (time m) (?bw @ ?bo) db1 = Inr db2"
    and bt: "balance_teams M ?bw ?bo = Inr (w, ot)"
    and mm: "match_metrics M w ot = Inr (avg_dlo m', match_quality m')"
    and wb: "write_back_team M (time m) (concat (rate M [w, ot])) db2 = Inr db'"
    and m': "m' = m\<lparr>avg_dlo := avg_dlo m', match_quality := match_quality m'\<rparr>"
    and h': "hist' = hist @ [m']"
    by (rule process_two_team_phases)
  have nm: "map name (?bw @ ?bo) = map player_id (winner_roster m @ other_roster m)"
    using assms(2) by (simp add: names_of_beliefs)
  from assms(5) have "?k \<in> set (map name (?bw @ ?bo))"
    by (simp only: nm) force
  with balanced_names(1) [OF bt] have "?k \<in> set (map name (w @ ot))" by auto
  then have "?k \<in> set (map name (concat (rate M [w, ot])))"
    by (simp add: rate_keeps_names_concat [OF assms(3)])
  from write_back_team_last [OF wb this assms(6)] obtain d r where
    d: "db' ?k = Some d" and r: "r \<in> set (concat (rate M [w, ot]))"
    and rn: "name r = ?k" and rd: "rating_data d = r"
    and hne: "history d \<noteq> []" and lst: "last (history d) = (time m, ordinal M r)"
    by blast
  from d have "history_of db' ?k = history d" by (simp add: history_of_def)
  with process_two_team_counts(3) [OF assms(1) assms(2) assms(4), of ?k]
  have len: "length (history d)
               = length (history_of db ?k) + count_list (participants m) ?k"
    by simp
  from d bt r rn rd hne lst len show ?thesis by blast
qed

text \<open>
  In the match of two against one, the player of the smaller team ends with the belief the
  rating service returned (mean 21) and a last history entry of timestamp 5 with the ordinal
  score 9 of that belief; the placeholder held the score 8 of the belief before.
\<close>

theorem history_overwritten_witness:
  "two_team_match uneven_match \<and> names_ok example_db \<and> rate_keeps_names example_model
   \<and> bob \<in> set (winner_roster uneven_match @ other_roster uneven_match)
   \<and> player_id bob \<noteq> ''TEST_PLAYER''
   \<and> map_option rating_data
        (result_player (process_match_result example_model uneven_match [] example_db) ''1002'')
       = Some \<lparr>name = ''1002'', mu = 21, sigma = 4\<rparr>
   \<and> map_option (\<lambda>d. last (history d))
        (result_player (process_match_result example_model uneven_match [] example_db) ''1002'')
       = Some (5, 9)"
proof -
  have tt: "two_team_match uneven_match" by (simp add: run_defs)
  have wf: "well_formed_match uneven_match" by (simp add: run_defs)
  have pin: "bob \<in> set (winner_roster uneven_match @ other_roster uneven_match)"
    by (simp add: run_defs)
  have pid: "player_id bob \<noteq> ''TEST_PLAYER''" by (simp add: bob_def)
  from process_match_result_total [OF wf names_ok_example_db rate_keeps_names_example, of "[]"]
  obtain db' hist' m' where
    run: "process_match_result example_model uneven_match [] example_db = Inr (db', hist', m')"
    by blast
  from history_overwritten [OF tt names_ok_example_db rate_keeps_names_example run pin pid]
  obtain d where d: "db' (player_id bob) = Some d"
    and lst: "last (history d) = (time uneven_match, ordinal example_model (rating_data d))"
    by blast
  have ev: "map_option rating_data
        (result_player (process_match_result example_model uneven_match [] example_db) ''1002'')
       = Some \<lparr>name = ''1002'', mu = 21, sigma = 4\<rparr>"
    by (simp add: run_defs)
  from d run have rp:
    "result_player (process_match_result example_model uneven_match [] example_db) ''1002''
       = Some d"
    by (simp add: result_player_def bob_def)
  with ev have rd: "rating_data d = \<lparr>name = ''1002'', mu = 21, sigma = 4\<rparr>" by simp
  with lst have "last (history d) = (5, 9)"
    by (simp add: uneven_match_def example_model_def)
  with tt pin pid ev rp names_ok_example_db rate_keeps_names_example show ?thesis by simp
qed

text \<open>
  Claim C3 says that with rosters of unequal size the smaller belief list is padded. The mean
  of line 256 is taken over the list to pad: a report with a team of one player and a team of
  no players is parsed into a valid two-team match, and on it the balancing divides by zero
  and the call raises instead of padding.
\<close>

theorem team_balancing_counterexample:
  "parse_battle_report 5
     (example_report ''1'' ''1000'' ''true'' ''TeamA''
        [example_team ''TeamA'' [alice_element], example_team ''TeamB'' []])
     = Inr empty_team_match
   \<and> two_team_match empty_team_match
   \<and> length (winner_roster empty_team_match) = 1
   \<and> length (other_roster empty_team_match) = 0
   \<and> balance_teams example_model
       (beliefs example_model Map.empty (winner_roster empty_team_match))
       (beliefs example_model Map.empty (other_roster empty_team_match))
     = Inl ZeroDivisionError
   \<and> process_match_result example_model empty_team_match [] Map.empty
     = Inl ZeroDivisionError"
  by (simp add: parser_defs example_defs run_defs)

text \<open>
  Claim C3, as the code has it. On a valid two-team match whose rosters both have an entry,
  with entries of faction \<^verbatim>\<open>ANS\<close> or \<^verbatim>\<open>OSP\<close>, a database that keeps beliefs under their
  names and a rating service that returns the names it is given, \<^verbatim>\<open>process_match_result\<close>
  returns, and the lists it gives to \<^verbatim>\<open>predict_draw\<close> and \<^verbatim>\<open>rate\<close> are \<open>pw\<close> and
  \<open>po\<close>: each collected belief list followed by as many synthetic beliefs as it is shorter
  than the other, a synthetic belief carrying the arithmetic mean of the means and of the
  uncertainties of the list it is appended to, taken over that list before padding. The
  padded lists have equal length, and lists of equal length are left as they are. The
  balancing itself returns these lists for any two lists of which a shorter one is not empty;
  and every run that returns on a valid two-team match has used them.
\<close>

theorem team_balancing:
  fixes M :: PlackettLuce and m :: MatchData and db :: database
  defines "bw \<equiv> beliefs M db (winner_roster m)"
      and "bo \<equiv> beliefs M db (other_roster m)"
  defines "pw \<equiv> bw @ replicate (length bo - length bw)
                       (rating M ''TEST_PLAYER''
                          (Some (sum_list (map mu bw) / real (length bw)))
                          (Some (sum_list (map sigma bw) / real (length bw))))"
      and "po \<equiv> bo @ replicate (length bw - length bo)
                       (rating M ''TEST_PLAYER''
                          (Some (sum_list (map mu bo) / real (length bo)))
                          (Some (sum_list (map sigma bo) / real (length bo))))"
  shows
    "(well_formed_match m \<and> names_ok db \<and> rate_keeps_names M \<longrightarrow>
        (\<exists>db' hist' m' db2.
            process_match_result M m hist db = Inr (db', hist', m')
          \<and> balance_teams M bw bo = Inr (pw, po)
          \<and> match_quality m' = predict_draw M [pw, po]
          \<and> write_back M (time m) (rate M [pw, po]) db2 = Inr db'))
     \<and> length bw = length (winner_roster m) \<and> length bo = length (other_roster m)
     \<and> length pw = length po
     \<and> (length (winner_roster m) = length (other_roster m) \<longrightarrow> pw = bw \<and> po = bo)
     \<and> ((length wt < length ot \<longrightarrow> wt \<noteq> []) \<and> (length ot < length wt \<longrightarrow> ot \<noteq> []) \<longrightarrow>
          balance_teams M wt ot
            = Inr (wt @ replicate (length ot - length wt)
                           (rating M ''TEST_PLAYER''
                              (Some (sum_list (map mu wt) / real (length wt)))
                              (Some (sum_list (map sigma wt) / real (length wt)))),
                   ot @ replicate (length wt - length ot)
                           (rating M ''TEST_PLAYER''
                              (Some (sum_list (map mu ot) / real (length ot)))
                              (Some (sum_list (map sigma ot) / real (length ot))))))
     \<and> (two_team_match m \<and> process_match_result M m hist db = Inr (db1, hist1, m1) \<longrightarrow>
          balance_teams M bw bo = Inr (pw, po)
          \<and> match_quality m1 = predict_draw M [pw, po]
          \<and> (\<exists>db2. write_back M (time m) (rate M [pw, po]) db2 = Inr db1))"
proof -
  have lw: "length bw = length (winner_roster m)" and lo: "length bo = length (other_roster m)"
    by (simp_all add: bw_def bo_def beliefs_def)
  have len: "length pw = length po" by (simp add: pw_def po_def)
  have eq: "length (winner_roster m) = length (other_roster m) \<longrightarrow> pw = bw \<and> po = bo"
    by (simp add: pw_def po_def lw lo)
  have run: "balance_teams M bw bo = Inr (pw, po)
          \<and> match_quality m1 = predict_draw M [pw, po]
          \<and> (\<exists>db2. write_back M (time m) (rate M [pw, po]) db2 = Inr db1)"
    if tt: "two_team_match m" and r: "process_match_result M m hist db = Inr (db1, hist1, m1)"
    for db1 hist1 m1
  proof -
    from padded_lists_of_run [OF tt r] obtain w ot db2 where
      bt: "balance_teams M bw bo = Inr (w, ot)"
      and mq: "match_quality m1 = predict_draw M [w, ot]"
      and wb: "write_back M (time m) (rate M [w, ot]) db2 = Inr db1"
      unfolding bw_def bo_def by blast
    from balance_teams_result(1) [OF bt] have w: "w = pw" by (simp add: pw_def)
    from balance_teams_result(2) [OF bt] have o: "ot = po" by (simp add: po_def)
    from bt mq wb show ?thesis unfolding w o by blast
  qed
  have total: "\<exists>db' hist' m' db2.
            process_match_result M m hist db = Inr (db', hist', m')
          \<and> balance_teams M bw bo = Inr (pw, po)
          \<and> match_quality m' = predict_draw M [pw, po]
          \<and> write_back M (time m) (rate M [pw, po]) db2 = Inr db'"
    if wf: "well_formed_match m" and n: "names_ok db" and k: "rate_keeps_names M"
  proof -
    from process_match_result_total [OF wf n k, of hist] obtain db' hist' m' where
      r: "process_match_result M m hist db = Inr (db', hist', m')" by blast
    from wf have tt: "two_team_match m" by (simp add: well_formed_match_def)
    from run [OF tt r] r show ?thesis by blast
  qed
  from total lw lo len eq balance_teams_padded [of wt ot M] run show ?thesis by blast
qed

text \<open>
  Two against one: the single member of the smaller team has mean 20 and uncertainty 4, so
  one synthetic belief with mean 20 and uncertainty 4 is appended to that team, both lists
  have two entries, and the run returns with the quality predicted for these two lists.
\<close>

theorem team_balancing_witness:
  "well_formed_match uneven_match \<and> names_ok example_db \<and> rate_keeps_names example_model
   \<and> balance_teams example_model
       (beliefs example_model example_db (winner_roster uneven_match))
       (beliefs example_model example_db (other_roster uneven_match))
     = Inr ([\<lparr>name = ''1001'', mu = 25, sigma = 8\<rparr>, \<lparr>name = ''1003'', mu = 25, sigma = 8\<rparr>],
            [\<lparr>name = ''1002'', mu = 20, sigma = 4\<rparr>,
             \<lparr>name = ''TEST_PLAYER'', mu = 20, sigma = 4\<rparr>])
   \<and> map_option match_quality
        (result_match (process_match_result example_model uneven_match [] example_db))
     = Some (predict_draw example_model
               [[\<lparr>name = ''1001'', mu = 25, sigma = 8\<rparr>, \<lparr>name = ''1003'', mu = 25, sigma = 8\<rparr>],
                [\<lparr>name = ''1002'', mu = 20, sigma = 4\<rparr>,
                 \<lparr>name = ''TEST_PLAYER'', mu = 20, sigma = 4\<rparr>]])"
proof -
  have wf: "well_formed_match uneven_match" by (simp add: run_defs)
  have bw: "beliefs example_model example_db (winner_roster uneven_match)
              = [\<lparr>name = ''1001'', mu = 25, sigma = 8\<rparr>, \<lparr>name = ''1003'', mu = 25, sigma = 8\<rparr>]"
    by (simp add: run_defs)
  have bo: "beliefs example_model example_db (other_roster uneven_match)
              = [\<lparr>name = ''1002'', mu = 20, sigma = 4\<rparr>]"
    by (simp add: run_defs)
  note t = team_balancing [where m = uneven_match and db = example_db and M = example_model
                             and hist = "[]", THEN conjunct1, unfolded bw bo]
  from t wf names_ok_example_db rate_keeps_names_example
  obtain db' hist' m' where
    run: "process_match_result example_model uneven_match [] example_db = Inr (db', hist', m')"
    and bt: "balance_teams example_model
       (beliefs example_model example_db (winner_roster uneven_match))
       (beliefs example_model example_db (other_roster uneven_match))
     = Inr ([\<lparr>name = ''1001'', mu = 25, sigma = 8\<rparr>, \<lparr>name = ''1003'', mu = 25, sigma = 8\<rparr>],
            [\<lparr>name = ''1002'', mu = 20, sigma = 4\<rparr>,
             \<lparr>name = ''TEST_PLAYER'', mu = 20, sigma = 4\<rparr>])"
    and mq: "match_quality m'
          = predict_draw example_model
               [[\<lparr>name = ''1001'', mu = 25, sigma = 8\<rparr>, \<lparr>name = ''1003'', mu = 25, sigma = 8\<rparr>],
                [\<lparr>name = ''1002'', mu = 20, sigma = 4\<rparr>,
                 \<lparr>name = ''TEST_PLAYER'', mu = 20, sigma = 4\<rparr>]]"
    by (auto simp: bw bo rating_def)
  from wf names_ok_example_db rate_keeps_names_example run bt mq show ?thesis
    by (simp add: result_match_def)
qed

text \<open>
  Claim C4 says that the metrics are stored for every valid two-team match. A report with two
  teams of no players is parsed into a valid two-team match on which the mean of line 267 is
  taken over no belief at all: the call raises and stores nothing. With one empty roster the
  call raises at line 256, before the metrics, and returns no record either.
\<close>

theorem match_metrics_counterexample:
  "parse_battle_report 5
     (example_report ''1'' ''1000'' ''true'' ''TeamA''
        [example_team ''TeamA'' [], example_team ''TeamB'' []])
     = Inr no_players_match
   \<and> two_team_match no_players_match
   \<and> match_metrics example_model [] [] = Inl ZeroDivisionError
   \<and> process_match_result example_model no_players_match [] example_db
     = Inl ZeroDivisionError
   \<and> two_team_match empty_team_match
   \<and> result_match (process_match_result example_model empty_team_match [] example_db) = None"
  by (simp add: parser_defs example_defs run_defs)

text \<open>
  Claim C4, as the code has it. On a valid two-team match whose rosters both have an entry,
  with entries of faction \<^verbatim>\<open>ANS\<close> or \<^verbatim>\<open>OSP\<close>, a database that keeps beliefs under their
  names and a rating service that returns the names it is given, \<^verbatim>\<open>process_match_result\<close>
  returns a match record whose \<^verbatim>\<open>avg_dlo\<close> is the mean of the means minus three times the
  mean of the uncertainties over all beliefs of the two padded lists \<open>pw\<close> and \<open>po\<close>
  together, synthetic ones included, and whose \<^verbatim>\<open>match_quality\<close> is \<^verbatim>\<open>predict_draw\<close> of
  the two padded lists; this record is the one appended to the match history. Both values
  are values of the padded lists alone, which are built from the beliefs the database held
  when the call began: nothing that \<^verbatim>\<open>rate\<close> returns enters them. The metrics step itself
  returns these two values for any two lists that are not both empty; and every run that
  returns on a valid two-team match has stored them.
\<close>

theorem match_metrics_stored:
  fixes M :: PlackettLuce and m :: MatchData and db :: database
  defines "bw \<equiv> beliefs M db (winner_roster m)"
      and "bo \<equiv> beliefs M db (other_roster m)"
  defines "pw \<equiv> bw @ replicate (length bo - length bw)
                       (rating M ''TEST_PLAYER''
                          (Some (sum_list (map mu bw) / real (length bw)))
                          (Some (sum_list (map sigma bw) / real (length bw))))"
      and "po \<equiv> bo @ replicate (length bw - length bo)
                       (rating M ''TEST_PLAYER''
                          (Some (sum_list (map mu bo) / real (length bo)))
                          (Some (sum_list (map sigma bo) / real (length bo))))"
  shows
    "(well_formed_match m \<and> names_ok db \<and> rate_keeps_names M \<longrightarrow>
        (\<exists>db' hist' m'.
            process_match_result M m hist db = Inr (db', hist', m')
          \<and> balance_teams M bw bo = Inr (pw, po)
          \<and> avg_dlo m'
              = sum_list (map mu (pw @ po)) / real (length (pw @ po))
                - 3 * (sum_list (map sigma (pw @ po)) / real (length (pw @ po)))
          \<and> match_quality m' = predict_draw M [pw, po]
          \<and> m' = m\<lparr>avg_dlo := avg_dlo m', match_quality := match_quality m'\<rparr>
          \<and> hist' = hist @ [m']))
     \<and> length pw = length po
     \<and> (wt @ ot \<noteq> [] \<longrightarrow>
          match_metrics M wt ot
            = Inr (sum_list (map mu (wt @ ot)) / real (length (wt @ ot))
                     - 3 * (sum_list (map sigma (wt @ ot)) / real (length (wt @ ot))),
                   predict_draw M [wt, ot]))
     \<and> (two_team_match m \<and> process_match_result M m hist db = Inr (db1, hist1, m1) \<longrightarrow>
          balance_teams M bw bo = Inr (pw, po)
          \<and> avg_dlo m1
              = sum_list (map mu (pw @ po)) / real (length (pw @ po))
                - 3 * (sum_list (map sigma (pw @ po)) / real (length (pw @ po)))
          \<and> match_quality m1 = predict_draw M [pw, po]
          \<and> m1 = m\<lparr>avg_dlo := avg_dlo m1, match_quality := match_quality m1\<rparr>
          \<and> hist1 = hist @ [m1])"
proof -
  have len: "length pw = length po" by (simp add: pw_def po_def)
  have run: "balance_teams M bw bo = Inr (pw, po)
          \<and> avg_dlo m1
              = sum_list (map mu (pw @ po)) / real (length (pw @ po))
                - 3 * (sum_list (map sigma (pw @ po)) / real (length (pw @ po)))
          \<and> match_quality m1 = predict_draw M [pw, po]
          \<and> m1 = m\<lparr>avg_dlo := avg_dlo m1, match_quality := match_quality m1\<rparr>
          \<and> hist1 = hist @ [m1]"
    if tt: "two_team_match m" and r: "process_match_result M m hist db = Inr (db1, hist1, m1)"
    for db1 hist1 m1
  proof -
    from metrics_of_run [OF tt r] obtain w ot where
      bt: "balance_teams M bw bo = Inr (w, ot)"
      and av: "avg_dlo m1
                 = sum_list (map mu (w @ ot)) / real (length (w @ ot))
                   - 3 * (sum_list (map sigma (w @ ot)) / real (length (w @ ot)))"
      and mq: "match_quality m1 = predict_draw M [w, ot]"
      and m1: "m1 = m\<lparr>avg_dlo := avg_dlo m1, match_quality := match_quality m1\<rparr>"
      and h1: "hist1 = hist @ [m1]"
      unfolding bw_def bo_def by blast
    from balance_teams_result(1) [OF bt] have w: "w = pw" by (simp add: pw_def)
    from balance_teams_result(2) [OF bt] have o: "ot = po" by (simp add: po_def)
    from bt av mq m1 h1 show ?thesis unfolding w o by blast
  qed
  have total: "\<exists>db' hist' m'.
            process_match_result M m hist db = Inr (db', hist', m')
          \<and> balance_teams M bw bo = Inr (pw, po)
          \<and> avg_dlo m'
              = sum_list (map mu (pw @ po)) / real (length (pw @ po))
                - 3 * (sum_list (map sigma (pw @ po)) / real (length (pw @ po)))
          \<and> match_quality m' = predict_draw M [pw, po]
          \<and> m' = m\<lparr>avg_dlo := avg_dlo m', match_quality := match_quality m'\<rparr>
          \<and> hist' = hist @ [m']"
    if wf: "well_formed_match m" and n: "names_ok db" and k: "rate_keeps_names M"
  proof -
    from process_match_result_total [OF wf n k, of hist] obtain db' hist' m' where
      r: "process_match_result M m hist db = Inr (db', hist', m')" by blast
    from wf have tt: "two_team_match m" by (simp add: well_formed_match_def)
    from run [OF tt r] r show ?thesis by blast
  qed
  from total len match_metrics_value [of wt ot M] run show ?thesis by blast
qed

text \<open>
  Two against one, with means 25, 25 and 20 and uncertainties 8, 8 and 4: the run returns, the
  pool of four beliefs, the synthetic one included, has mean 45/2 and mean uncertainty 6, so
  the stored \<^verbatim>\<open>avg_dlo\<close> is 9/2; the stored quality is what the example service predicts.
\<close>

theorem match_metrics_stored_witness:
  "well_formed_match uneven_match \<and> names_ok example_db \<and> rate_keeps_names example_model
   \<and> map_option avg_dlo
        (result_match (process_match_result example_model uneven_match [] example_db))
     = Some (9 / 2)
   \<and> map_option match_quality
        (result_match (process_match_result example_model uneven_match [] example_db))
     = Some (1 / 2)"
proof -
  have wf: "well_formed_match uneven_match" by (simp add: run_defs)
  have bw: "beliefs example_model example_db (winner_roster uneven_match)
              = [\<lparr>name = ''1001'', mu = 25, sigma = 8\<rparr>, \<lparr>name = ''1003'', mu = 25, sigma = 8\<rparr>]"
    by (simp add: run_defs)
  have bo: "beliefs example_model example_db (other_roster uneven_match)
              = [\<lparr>name = ''1002'', mu = 20, sigma = 4\<rparr>]"
    by (simp add: run_defs)
  note t = match_metrics_stored [where m = uneven_match and db = example_db
                                   and M = example_model and hist = "[]", THEN conjunct1, unfolded bw bo]
  from t wf names_ok_example_db rate_keeps_names_example
  obtain db' hist' m' where
    run: "process_match_result example_model uneven_match [] example_db = Inr (db', hist', m')"
    and av: "avg_dlo m' = 9 / 2" and mq: "match_quality m' = 1 / 2"
    by (auto simp: bw bo rating_def example_model_def)
  from wf names_ok_example_db rate_keeps_names_example run av mq show ?thesis
    by (simp add: result_match_def)
qed

text \<open>
  Claim C5 says that \<^verbatim>\<open>games_played\<close> is the number of matches in which the player
  appears. The counter is incremented once for each roster entry (line 204): in one match of
  two teams that lists the player \<^verbatim>\<open>1001\<close> twice, the player ends with two games. And a
  valid match of three teams is processed too, where a player of the third team gets a game
  and no history entry.
\<close>

theorem games_played_counterexample:
  "two_team_match repeated_match
   \<and> map_option games_played
        (result_player (process_matches example_model [repeated_match] [] Map.empty) ''1001'')
     = Some 2
   \<and> matches_with [repeated_match] ''1001'' = 1
   \<and> valid three_team_match
   \<and> winning_team three_team_match \<in> set (map fst (teams three_team_match))
   \<and> map_option games_played
        (result_player (process_matches example_model [three_team_match] [] Map.empty) ''1003'')
     = Some 1
   \<and> map_option history
        (result_player (process_matches example_model [three_team_match] [] Map.empty) ''1003'')
     = Some []"
  by (simp add: run_defs matches_with_def)

text \<open>
  Claim C5, as the code has it. After any sequence of valid two-team matches folded through
  \<^verbatim>\<open>process_match_result\<close> from the empty database, a player's \<^verbatim>\<open>games_played\<close> is the
  number of roster entries with the player's id in the sequence, and it is the length of the
  player's history; a player who has no record has no roster entry. When no match lists a
  player twice, the number of roster entries is the number of matches in which the player
  appears.
\<close>

theorem games_played_counts_roster_entries:
  assumes "\<forall>m \<in> set ms. two_team_match m"
      and "process_matches M ms [] Map.empty = Inr (db, match_history)"
  shows "games_of db k = int (appearances ms k)
         \<and> int (length (history_of db k)) = games_of db k
         \<and> (db k = None \<longrightarrow> appearances ms k = 0)
         \<and> ((\<forall>m \<in> set ms. distinct (participants m))
              \<longrightarrow> games_of db k = int (matches_with ms k))"
proof -
  note c = process_matches_counts [OF assms(1) names_ok_empty assms(2)]
  have g0: "games_of Map.empty k = 0" and h0: "history_of Map.empty k = []"
    by (simp_all add: games_of_def history_of_def)
  from c g0 have 1: "games_of db k = int (appearances ms k)" by simp
  from c h0 have len: "length (history_of db k) = appearances ms k" by simp
  with 1 have 2: "int (length (history_of db k)) = games_of db k" by simp
  from 1 have 3: "db k = None \<longrightarrow> appearances ms k = 0" by (auto simp: games_of_def)
  from 1 have 4: "(\<forall>m \<in> set ms. distinct (participants m))
              \<longrightarrow> games_of db k = int (matches_with ms k)"
    by (simp add: appearances_distinct)
  from 1 2 3 4 show ?thesis by blast
qed

text \<open>
  Two matches from the empty database: player \<^verbatim>\<open>1001\<close> is on a roster of both, once each,
  and ends with two games and a history of two entries.
\<close>

theorem games_played_counts_roster_entries_witness:
  "two_team_match example_match \<and> two_team_match uneven_match
   \<and> distinct (participants example_match) \<and> distinct (participants uneven_match)
   \<and> appearances [example_match, uneven_match] ''1001'' = 2
   \<and> matches_with [example_match, uneven_match] ''1001'' = 2
   \<and> map_option games_played
        (result_player
           (process_matches example_model [example_match, uneven_match] [] Map.empty) ''1001'')
     = Some 2
   \<and> map_option (\<lambda>d. length (history d))
        (result_player
           (process_matches example_model [example_match, uneven_match] [] Map.empty) ''1001'')
     = Some 2"
proof -
  let ?ms = "[example_match, uneven_match]"
  have tt: "two_team_match example_match" "two_team_match uneven_match"
    by (simp_all add: run_defs)
  have wf: "\<forall>m \<in> set ?ms. well_formed_match m" by (simp add: run_defs)
  have di: "distinct (participants example_match)" "distinct (participants uneven_match)"
    by (simp_all add: run_defs)
  have ap: "appearances ?ms ''1001'' = 2" by (simp add: appearances_def run_defs)
  have mw: "matches_with ?ms ''1001'' = 2" by (simp add: matches_with_def run_defs)
  from process_matches_total [OF wf names_ok_empty rate_keeps_names_example, of "[]"]
  obtain db h where run: "process_matches example_model ?ms [] Map.empty = Inr (db, h)"
    by blast
  from tt have "\<forall>m \<in> set ?ms. two_team_match m" by simp
  from games_played_counts_roster_entries [OF this run, of "''1001''"] ap
  have g: "games_of db ''1001'' = 2" and l: "int (length (history_of db ''1001'')) = 2"
    by simp_all
  from g obtain d where d: "db ''1001'' = Some d" and gd: "games_played d = 2"
    by (cases "db ''1001''") (simp_all add: games_of_def)
  from l d have ld: "length (history d) = 2" by (simp add: history_of_def)
  from tt di ap mw run d gd ld show ?thesis by (simp add: result_player_def)
qed

section \<open>Claim about the adjustment applier\<close>

text \<open>
  Claim C9. A directive whose player id is a key of the database replaces that player's
  belief with one of the same name and the same uncertainty whose mean is the old mean plus
  \<^verbatim>\<open>mu_adjustment\<close>; the other fields of the player's record and the records of all other
  players stay as they are. A directive whose player id is not a key leaves the database as
  it is. The directives of a list are applied in order, each to the database the ones before
  it left.
\<close>

theorem adjustment_applied:
  "(\<forall>d. database (steam_id adj) = Some d \<longrightarrow>
      apply_manual_adjustments model database [adj] (steam_id adj)
        = Some (d\<lparr>rating_data :=
                    \<lparr>name = name (rating_data d),
                     mu = mu (rating_data d) + mu_adjustment adj,
                     sigma = sigma (rating_data d)\<rparr>\<rparr>))
   \<and> (\<forall>k. k \<noteq> steam_id adj \<longrightarrow>
          apply_manual_adjustments model database [adj] k = database k)
   \<and> (database (steam_id adj) = None \<longrightarrow>
        apply_manual_adjustments model database [adj] = database)
   \<and> apply_manual_adjustments model database (adj # rest)
       = apply_manual_adjustments model (apply_manual_adjustments model database [adj]) rest"
  by (cases "database (steam_id adj)") (simp_all add: rating_def Let_def)

text \<open>
  An adjustment of +5 for a player with mean 25 and uncertainty 8 gives mean 30 and
  uncertainty 8 and leaves another player's record alone; an adjustment for an id that is not
  in the database changes nothing.
\<close>

theorem adjustment_applied_witness:
  "example_db (steam_id alice_adjustment) = Some (example_data ''1001'' ''alice'' 25 8)
   \<and> apply_manual_adjustments example_model example_db [alice_adjustment] ''1001''
       = Some ((example_data ''1001'' ''alice'' 25 8)
                 \<lparr>rating_data := \<lparr>name = ''1001'', mu = 30, sigma = 8\<rparr>\<rparr>)
   \<and> apply_manual_adjustments example_model example_db [alice_adjustment] ''1002''
       = example_db ''1002''
   \<and> example_db (steam_id unknown_adjustment) = None
   \<and> apply_manual_adjustments example_model example_db [unknown_adjustment] = example_db"
proof -
  have h1: "example_db (steam_id alice_adjustment) = Some (example_data ''1001'' ''alice'' 25 8)"
    by (simp add: example_db_def alice_adjustment_def)
  have h2: "example_db (steam_id unknown_adjustment) = None"
    by (simp add: example_db_def unknown_adjustment_def)
  have h3: "''1002'' \<noteq> steam_id alice_adjustment" by (simp add: alice_adjustment_def)
  from adjustment_applied [of example_db alice_adjustment example_model "[]"] h1 h3
  have a: "apply_manual_adjustments example_model example_db [alice_adjustment] ''1001''
       = Some ((example_data ''1001'' ''alice'' 25 8)
                 \<lparr>rating_data := \<lparr>name = ''1001'', mu = 30, sigma = 8\<rparr>\<rparr>)"
    and b: "apply_manual_adjustments example_model example_db [alice_adjustment] ''1002''
       = example_db ''1002''"
    by (simp_all add: alice_adjustment_def example_data_def)
  from adjustment_applied [of example_db unknown_adjustment example_model "[]"] h2
  have c: "apply_manual_adjustments example_model example_db [unknown_adjustment] = example_db"
    by blast
  from h1 h2 a b c show ?thesis by simp
qed

end
